theory Spec2Isabelle
  imports Complex_Main
begin

section \<open>The transfer-matrix engine of \<^verbatim>\<open>TMM_1dim.py\<close>\<close>

text \<open>
  The class \<^verbatim>\<open>PhotonicCrystal1d\<close> is embedded as a record with one field per
  attribute, its methods as functions that take the object and return the updated one.
  Python floats and numpy's float64/complex128 are idealised as the real and complex
  numbers: rounding, overflow, infinities and NaN are outside the model. Where the source
  would produce an infinity or a NaN without raising (a division of numpy scalars by
  zero, the root of a negative number), the value of the model has no counterpart in the
  source; the section on lossless configurations shows that, in exact arithmetic, no
  such division occurs there. The exceptions of the source are values of \<open>error\<close>:
  \<^item> \<open>ValueError\<close>: the explicit \<^verbatim>\<open>raise\<close> of \<^verbatim>\<open>simulate_rt\<close>;
  \<^item> \<open>AssertionError\<close>: the \<^verbatim>\<open>assert flag == 0\<close> of \<^verbatim>\<open>simulate_rt\<close>;
  \<^item> \<open>ZeroDivisionError\<close>: the division of two Python floats in \<^verbatim>\<open>__init__\<close> and in
    \<^verbatim>\<open>calculateTransferMatrices\<close> (the vacuum constants are Python floats, so the radicand
    is computed by Python's own division, which raises on a zero divisor; all later
    divisions are between numpy scalars, which do not raise);
  \<^item> \<open>KeyError\<close>: a lookup of an absent key in one of the two dictionaries;
  \<^item> \<open>TypeError\<close>: \<^verbatim>\<open>self.last - 1\<close> while \<^verbatim>\<open>self.last\<close> is \<^verbatim>\<open>None\<close>.
\<close>

datatype error = ValueError | AssertionError | ZeroDivisionError | KeyError | TypeError

subsection \<open>Complex 2x2 arrays\<close>

text \<open>
  A numpy array of shape (2, 2), row by row: \<open>Mat22 a b c d\<close> is \<^verbatim>\<open>[[a, b], [c, d]]\<close>,
  and \<open>m10 Q\<close> is \<^verbatim>\<open>Q[1, 0]\<close>. The real arrays of the source are promoted to complex
  ones, as numpy does at the first product with a complex array.
\<close>

datatype mat22 = Mat22 (m00: complex) (m01: complex) (m10: complex) (m11: complex)

text \<open>The operator \<^verbatim>\<open>@\<close> on two such arrays.\<close>

definition matmul :: "mat22 \<Rightarrow> mat22 \<Rightarrow> mat22" where
  "matmul A B =
     Mat22 (m00 A * m00 B + m01 A * m10 B) (m00 A * m01 B + m01 A * m11 B)
           (m10 A * m00 B + m11 A * m10 B) (m10 A * m01 B + m11 A * m11 B)"

text \<open>
  The expression \<^verbatim>\<open>.5 * np.array([[1 + delta, 1 - delta], [1 - delta, 1 + delta]])\<close>,
  which the source writes out once per interface.
\<close>

definition half_array :: "real \<Rightarrow> mat22" where
  "half_array delta =
     Mat22 (complex_of_real (0.5 * (1 + delta))) (complex_of_real (0.5 * (1 - delta)))
           (complex_of_real (0.5 * (1 - delta))) (complex_of_real (0.5 * (1 + delta)))"

subsection \<open>The object\<close>

text \<open>The class attributes \<^verbatim>\<open>Eps0 = 8.854e-12\<close> and \<^verbatim>\<open>Mu0 = 4 * np.pi * 1e-7\<close>.\<close>

definition Eps0 :: real where
  "Eps0 = 8854 / 10 ^ 15"

definition Mu0 :: real where
  "Mu0 = 4 * pi * (1 / 10 ^ 7)"

text \<open>
  The attribute \<^verbatim>\<open>last\<close> is the field \<open>last_layer\<close> (the name \<open>last\<close> is taken by
  lists). An attribute that holds \<^verbatim>\<open>None\<close> until it is assigned is an option.
\<close>

record PhotonicCrystal1d =
  N :: int
  d1 :: real
  d2 :: real
  epsr1 :: real
  epsr2 :: real
  mur1 :: real
  mur2 :: real
  Z1 :: real
  Z2 :: real
  last_layer :: "int option"
  periods :: "int option"
  transferMatrices :: "string \<rightharpoonup> mat22"
  propagationMatrices :: "string \<rightharpoonup> mat22"
  envEpsr :: "real option"
  envMur :: "real option"
  omega :: "real option"

text \<open>
  \<^verbatim>\<open>__init__\<close>. The two impedances are computed first, and either division raises when
  its divisor \<^verbatim>\<open>Eps0*epsr\<close> is zero; then no object exists. The defaults
  \<^verbatim>\<open>mur1=1, mur2=1\<close> are passed explicitly.
\<close>

definition init ::
  "int \<Rightarrow> real \<Rightarrow> real \<Rightarrow> real \<Rightarrow> real \<Rightarrow> real \<Rightarrow> real \<Rightarrow> error + PhotonicCrystal1d" where
  "init n dd1 dd2 e1 e2 mu1 mu2 =
     (if Eps0 * e1 = 0 then Inl ZeroDivisionError
      else if Eps0 * e2 = 0 then Inl ZeroDivisionError
      else Inr \<lparr> N = n, d1 = dd1, d2 = dd2, epsr1 = e1, epsr2 = e2, mur1 = mu1, mur2 = mu2,
                 Z1 = sqrt ((Mu0 * mu1) / (Eps0 * e1)),
                 Z2 = sqrt ((Mu0 * mu2) / (Eps0 * e2)),
                 last_layer = None,
                 periods = (if n mod 2 = 0 then Some (n div 2) else None),
                 transferMatrices = Map.empty,
                 propagationMatrices = Map.empty,
                 envEpsr = None, envMur = None, omega = None \<rparr>)"

text \<open>
  \<^verbatim>\<open>calculateTransferMatrices\<close>. The two environment attributes are assigned before
  the division that may raise, so the object returned beside the exception already holds
  them, with the dictionary and \<^verbatim>\<open>last\<close> as they were.
\<close>

definition calculateTransferMatrices ::
  "real \<Rightarrow> real \<Rightarrow> PhotonicCrystal1d \<Rightarrow> (error + unit) \<times> PhotonicCrystal1d" where
  "calculateTransferMatrices envEpsr' envMur' self =
     (let self = self\<lparr> envEpsr := Some envEpsr', envMur := Some envMur' \<rparr> in
      if Eps0 * envEpsr' = 0 then (Inl ZeroDivisionError, self)
      else
        let envZ = sqrt ((Mu0 * envMur') / (Eps0 * envEpsr'));
            tm = transferMatrices self;
            tm = tm(''env2one'' \<mapsto> half_array (Z1 self / envZ));
            tm = tm(''one2two'' \<mapsto> half_array (Z2 self / Z1 self));
            tm = tm(''two2one'' \<mapsto> half_array (Z1 self / Z2 self))
        in if N self mod 2 = 0
           then (Inr (), self\<lparr> last_layer := Some 2,
                    transferMatrices := tm(''last2env'' \<mapsto> half_array (envZ / Z2 self)) \<rparr>)
           else (Inr (), self\<lparr> last_layer := Some 1,
                    transferMatrices := tm(''last2env'' \<mapsto> half_array (envZ / Z1 self)) \<rparr>))"

text \<open>\<^verbatim>\<open>calculatePropagationMatrices\<close>. Nothing in it raises.\<close>

definition calculatePropagationMatrices :: "real \<Rightarrow> PhotonicCrystal1d \<Rightarrow> PhotonicCrystal1d" where
  "calculatePropagationMatrices omega' self =
     (let self = self\<lparr> omega := Some omega' \<rparr>;
          k1 = omega' * sqrt (Eps0 * Mu0 * epsr1 self * mur1 self);
          k2 = omega' * sqrt (Eps0 * Mu0 * epsr2 self * mur2 self);
          pm = propagationMatrices self;
          pm = pm(''one'' \<mapsto>
                 Mat22 (exp (\<i> * complex_of_real k1 * complex_of_real (d1 self))) 0
                       0 (exp (- \<i> * complex_of_real k1 * complex_of_real (d1 self))));
          pm = pm(''two'' \<mapsto>
                 Mat22 (exp (\<i> * complex_of_real k2 * complex_of_real (d2 self))) 0
                       0 (exp (- \<i> * complex_of_real k2 * complex_of_real (d2 self))))
      in self\<lparr> propagationMatrices := pm \<rparr>)"

subsection \<open>The cascade\<close>

text \<open>A dictionary lookup \<^verbatim>\<open>d[k]\<close>.\<close>

definition getitem :: "(string \<rightharpoonup> mat22) \<Rightarrow> string \<Rightarrow> error + mat22" where
  "getitem d k = (case d k of None \<Rightarrow> Inl KeyError | Some v \<Rightarrow> Inr v)"

text \<open>
  One pass through the body of the \<^verbatim>\<open>for\<close> loop of \<^verbatim>\<open>simulate_rt\<close>, on the pair of
  the two variables it assigns, \<^verbatim>\<open>Q\<close> and \<^verbatim>\<open>flag\<close>.
\<close>

definition loop_body :: "PhotonicCrystal1d \<Rightarrow> mat22 \<times> int \<Rightarrow> error + mat22 \<times> int" where
  "loop_body self s =
     (case s of (Q, flag) \<Rightarrow>
        if flag = 0 then
          (case getitem (propagationMatrices self) ''one'' of
             Inl e \<Rightarrow> Inl e
           | Inr P \<Rightarrow>
               (case getitem (transferMatrices self) ''two2one'' of
                  Inl e \<Rightarrow> Inl e
                | Inr T \<Rightarrow> Inr (matmul (matmul Q P) T, (flag + 1) mod 2)))
        else
          (case getitem (propagationMatrices self) ''two'' of
             Inl e \<Rightarrow> Inl e
           | Inr P \<Rightarrow>
               (case getitem (transferMatrices self) ''one2two'' of
                  Inl e \<Rightarrow> Inl e
                | Inr T \<Rightarrow> Inr (matmul (matmul Q P) T, (flag + 1) mod 2))))"

text \<open>
  \<^verbatim>\<open>for layer in range(n)\<close>: the body runs \<open>n\<close> times, and an exception ends the
  loop. The loop variable \<^verbatim>\<open>layer\<close> is not read.
\<close>

fun for_range :: "nat \<Rightarrow> PhotonicCrystal1d \<Rightarrow> mat22 \<times> int \<Rightarrow> error + mat22 \<times> int" where
  "for_range 0 self s = Inr s"
| "for_range (Suc n) self s =
     (case loop_body self s of Inl e \<Rightarrow> Inl e | Inr s' \<Rightarrow> for_range n self s')"

text \<open>What \<^verbatim>\<open>simulate_rt\<close> returns: the pair \<^verbatim>\<open>(r, t)\<close> or the pair \<^verbatim>\<open>(R, T)\<close>.\<close>

datatype outcome = Amplitudes complex complex | Powers real real

text \<open>
  \<^verbatim>\<open>simulate_rt\<close>. It assigns no attribute: the object after the call is the object
  before it, whatever the call returns or raises, so the function returns the result
  alone. \<^verbatim>\<open>range(self.N-1)\<close> is empty when \<^verbatim>\<open>self.N-1\<close> is not positive.
\<close>

definition simulate_rt :: "PhotonicCrystal1d \<Rightarrow> bool \<Rightarrow> error + outcome" where
  "simulate_rt self RT =
     (if envEpsr self = None \<or> omega self = None then Inl ValueError
      else
        case getitem (transferMatrices self) ''last2env'' of
          Inl e \<Rightarrow> Inl e
        | Inr Q0 \<Rightarrow>
        (case last_layer self of
          None \<Rightarrow> Inl TypeError
        | Some l \<Rightarrow>
        (case for_range (nat (N self - 1)) self (Q0, l - 1) of
          Inl e \<Rightarrow> Inl e
        | Inr (Q, flag) \<Rightarrow>
            if flag \<noteq> 0 then Inl AssertionError
            else
              (case getitem (propagationMatrices self) ''one'' of
                Inl e \<Rightarrow> Inl e
              | Inr P \<Rightarrow>
              (case getitem (transferMatrices self) ''env2one'' of
                Inl e \<Rightarrow> Inl e
              | Inr E \<Rightarrow>
                  let Q = matmul (matmul Q P) E;
                      r = - m10 Q / m11 Q;
                      t = m00 Q - (m01 Q * m10 Q) / m11 Q
                  in if RT then
                       let R = (cmod r) ^ 2;
                           T = 1 - R
                       in Inr (Powers R T)
                     else Inr (Amplitudes r t))))))"

subsection \<open>Sequences of setter calls\<close>

text \<open>
  A driver creates the object and then calls the two setters in any order, any number of
  times, before it calls \<^verbatim>\<open>simulate_rt\<close>. \<open>perform\<close> is the object after one such
  call, also when the call raised; \<open>run\<close> is the object after a list of them.
\<close>

datatype call = SetEnvironment real real | SetFrequency real

fun perform :: "PhotonicCrystal1d \<Rightarrow> call \<Rightarrow> PhotonicCrystal1d" where
  "perform self (SetEnvironment e mu) = snd (calculateTransferMatrices e mu self)"
| "perform self (SetFrequency w) = calculatePropagationMatrices w self"

definition run :: "call list \<Rightarrow> PhotonicCrystal1d \<Rightarrow> PhotonicCrystal1d" where
  "run cs self = foldl perform self cs"

subsection \<open>Invariants of the two dictionaries\<close>

text \<open>
  \<open>env_built\<close>: the four interface arrays are stored and \<^verbatim>\<open>last\<close> holds the parity
  of \<^verbatim>\<open>N\<close>. \<open>freq_built\<close>: the two layer arrays are stored. \<open>consistent\<close> is
  what every object reached from \<^verbatim>\<open>__init__\<close> by setter calls satisfies.
\<close>

definition env_built :: "PhotonicCrystal1d \<Rightarrow> bool" where
  "env_built self =
     (last_layer self = Some (if N self mod 2 = 0 then 2 else 1) \<and>
      transferMatrices self ''env2one'' \<noteq> None \<and>
      transferMatrices self ''one2two'' \<noteq> None \<and>
      transferMatrices self ''two2one'' \<noteq> None \<and>
      transferMatrices self ''last2env'' \<noteq> None)"

definition freq_built :: "PhotonicCrystal1d \<Rightarrow> bool" where
  "freq_built self =
     (propagationMatrices self ''one'' \<noteq> None \<and> propagationMatrices self ''two'' \<noteq> None)"

definition consistent :: "PhotonicCrystal1d \<Rightarrow> bool" where
  "consistent self =
     ((omega self = None \<or> freq_built self) \<and>
      (transferMatrices self ''last2env'' = None \<or> env_built self))"

subsection \<open>The cascade and the arrays as the specification words them\<close>

text \<open>
  The layer-type flag starts at \<open>f0\<close> and is flipped after each step, so the steps see
  the flags \<open>f0, f0 + 1, f0 + 2, ...\<close> modulo 2; \<open>spec_flags f0 k\<close> lists the first
  \<open>k\<close> of them. A step multiplies the running product on the right by the propagation
  array of the flagged layer type and then by the array of the crossing ("two2one" at
  flag 0, "one2two" at flag 1). The cascade starts from "last2env", takes \<open>k\<close> steps
  and closes with the type-1 propagation array and "env2one".
\<close>

definition spec_flags :: "int \<Rightarrow> nat \<Rightarrow> int list" where
  "spec_flags f0 k = map (\<lambda>i. (f0 + int i) mod 2) [0..<k]"

definition spec_step :: "mat22 \<Rightarrow> mat22 \<Rightarrow> mat22 \<Rightarrow> mat22 \<Rightarrow> mat22 \<Rightarrow> int \<Rightarrow> mat22" where
  "spec_step T12 T21 P1 P2 Q f =
     matmul (matmul Q (if f = 0 then P1 else P2)) (if f = 0 then T21 else T12)"

definition spec_cascade ::
  "mat22 \<Rightarrow> mat22 \<Rightarrow> mat22 \<Rightarrow> mat22 \<Rightarrow> mat22 \<Rightarrow> mat22 \<Rightarrow> int \<Rightarrow> nat \<Rightarrow> mat22" where
  "spec_cascade L T12 T21 E P1 P2 f0 k =
     matmul (matmul (foldl (spec_step T12 T21 P1 P2) L (spec_flags f0 k)) P1) E"

text \<open>The interface form \<open>0.5 [[1 + \<delta>, 1 - \<delta>], [1 - \<delta>, 1 + \<delta>]]\<close>.\<close>

definition spec_interface :: "real \<Rightarrow> mat22" where
  "spec_interface delta =
     Mat22 (complex_of_real ((1 + delta) / 2)) (complex_of_real ((1 - delta) / 2))
           (complex_of_real ((1 - delta) / 2)) (complex_of_real ((1 + delta) / 2))"

text \<open>
  The diagonal array of the two phases of a layer with wavenumber \<open>k\<close> and thickness
  \<open>d\<close>, both real: \<open>cis x\<close> is \<open>cos x + i sin x\<close>.
\<close>

definition spec_propagation :: "real \<Rightarrow> real \<Rightarrow> mat22" where
  "spec_propagation k d = Mat22 (cis (k * d)) 0 0 (cis (- (k * d)))"

text \<open>
  The object of a matched stack: \<^verbatim>\<open>last\<close> is 1 and each of the four interface arrays
  is the identity.
\<close>

definition all_identity :: "PhotonicCrystal1d \<Rightarrow> bool" where
  "all_identity self =
     (last_layer self = Some 1 \<and>
      transferMatrices self ''env2one'' = Some (Mat22 1 0 0 1) \<and>
      transferMatrices self ''one2two'' = Some (Mat22 1 0 0 1) \<and>
      transferMatrices self ''two2one'' = Some (Mat22 1 0 0 1) \<and>
      transferMatrices self ''last2env'' = Some (Mat22 1 0 0 1))"

text \<open>
  The shape of the arrays of a lossless stack: \<^verbatim>\<open>[[a, b], [conj b, conj a]]\<close> with
  \<open>|b| < |a|\<close>. \<open>balanced_tables\<close>: every stored array has it.
\<close>

definition balanced :: "mat22 \<Rightarrow> bool" where
  "balanced A =
     (m11 A = cnj (m00 A) \<and> m10 A = cnj (m01 A) \<and> (cmod (m01 A))\<^sup>2 < (cmod (m00 A))\<^sup>2)"

definition balanced_tables :: "PhotonicCrystal1d \<Rightarrow> bool" where
  "balanced_tables self =
     ((\<forall>M \<in> ran (transferMatrices self). balanced M) \<and>
      (\<forall>M \<in> ran (propagationMatrices self). balanced M))"

section \<open>Properties\<close>

subsection \<open>The constants and the two setters\<close>

lemma Eps0_pos: "0 < Eps0"
  by (simp add: Eps0_def)

lemma Mu0_pos: "0 < Mu0"
  by (simp add: Mu0_def)

lemma Eps0_neq_0: "Eps0 \<noteq> 0"
  using Eps0_pos by simp

lemma ctm_fst: "fst (calculateTransferMatrices e mu self) = (if e = 0 then Inl ZeroDivisionError else Inr ())"
  by (simp add: calculateTransferMatrices_def Let_def Eps0_neq_0)

lemma ctm_frame:
  "N (snd (calculateTransferMatrices e mu self)) = N self"
  "d1 (snd (calculateTransferMatrices e mu self)) = d1 self"
  "d2 (snd (calculateTransferMatrices e mu self)) = d2 self"
  "epsr1 (snd (calculateTransferMatrices e mu self)) = epsr1 self"
  "epsr2 (snd (calculateTransferMatrices e mu self)) = epsr2 self"
  "mur1 (snd (calculateTransferMatrices e mu self)) = mur1 self"
  "mur2 (snd (calculateTransferMatrices e mu self)) = mur2 self"
  "Z1 (snd (calculateTransferMatrices e mu self)) = Z1 self"
  "Z2 (snd (calculateTransferMatrices e mu self)) = Z2 self"
  "periods (snd (calculateTransferMatrices e mu self)) = periods self"
  "propagationMatrices (snd (calculateTransferMatrices e mu self)) = propagationMatrices self"
  "omega (snd (calculateTransferMatrices e mu self)) = omega self"
  by (simp_all add: calculateTransferMatrices_def Let_def)

lemma ctm_env:
  "envEpsr (snd (calculateTransferMatrices e mu self)) = Some e"
  "envMur (snd (calculateTransferMatrices e mu self)) = Some mu"
  by (simp_all add: calculateTransferMatrices_def Let_def)

lemma ctm_raise:
  "e = 0 \<Longrightarrow> transferMatrices (snd (calculateTransferMatrices e mu self)) = transferMatrices self"
  "e = 0 \<Longrightarrow> last_layer (snd (calculateTransferMatrices e mu self)) = last_layer self"
  by (simp_all add: calculateTransferMatrices_def Let_def Eps0_neq_0)

lemma ctm_last:
  "e \<noteq> 0 \<Longrightarrow> last_layer (snd (calculateTransferMatrices e mu self)) = Some (if N self mod 2 = 0 then 2 else 1)"
  by (simp add: calculateTransferMatrices_def Let_def Eps0_neq_0)

lemma ctm_table:
  "e \<noteq> 0 \<Longrightarrow> transferMatrices (snd (calculateTransferMatrices e mu self)) =
     (transferMatrices self)
       (''env2one'' \<mapsto> half_array (Z1 self / sqrt ((Mu0 * mu) / (Eps0 * e))),
        ''one2two'' \<mapsto> half_array (Z2 self / Z1 self),
        ''two2one'' \<mapsto> half_array (Z1 self / Z2 self),
        ''last2env'' \<mapsto> half_array (sqrt ((Mu0 * mu) / (Eps0 * e)) / (if N self mod 2 = 0 then Z2 self else Z1 self)))"
  by (simp add: calculateTransferMatrices_def Let_def Eps0_neq_0)

lemma cpm_frame:
  "N (calculatePropagationMatrices w self) = N self"
  "d1 (calculatePropagationMatrices w self) = d1 self"
  "d2 (calculatePropagationMatrices w self) = d2 self"
  "epsr1 (calculatePropagationMatrices w self) = epsr1 self"
  "epsr2 (calculatePropagationMatrices w self) = epsr2 self"
  "mur1 (calculatePropagationMatrices w self) = mur1 self"
  "mur2 (calculatePropagationMatrices w self) = mur2 self"
  "Z1 (calculatePropagationMatrices w self) = Z1 self"
  "Z2 (calculatePropagationMatrices w self) = Z2 self"
  "periods (calculatePropagationMatrices w self) = periods self"
  "last_layer (calculatePropagationMatrices w self) = last_layer self"
  "transferMatrices (calculatePropagationMatrices w self) = transferMatrices self"
  "envEpsr (calculatePropagationMatrices w self) = envEpsr self"
  "envMur (calculatePropagationMatrices w self) = envMur self"
  by (simp_all add: calculatePropagationMatrices_def Let_def)

lemma cpm_omega: "omega (calculatePropagationMatrices w self) = Some w"
  by (simp add: calculatePropagationMatrices_def Let_def)

lemma cpm_table:
  "propagationMatrices (calculatePropagationMatrices w self) =
     (propagationMatrices self)
       (''one'' \<mapsto> Mat22 (exp (\<i> * complex_of_real (w * sqrt (Eps0 * Mu0 * epsr1 self * mur1 self)) * complex_of_real (d1 self))) 0
                          0 (exp (- \<i> * complex_of_real (w * sqrt (Eps0 * Mu0 * epsr1 self * mur1 self)) * complex_of_real (d1 self))),
        ''two'' \<mapsto> Mat22 (exp (\<i> * complex_of_real (w * sqrt (Eps0 * Mu0 * epsr2 self * mur2 self)) * complex_of_real (d2 self))) 0
                          0 (exp (- \<i> * complex_of_real (w * sqrt (Eps0 * Mu0 * epsr2 self * mur2 self)) * complex_of_real (d2 self))))"
  by (simp add: calculatePropagationMatrices_def Let_def)

subsection \<open>Objects reached by setter calls\<close>

lemma run_Nil: "run [] self = self"
  by (simp add: run_def)

lemma run_snoc: "run (cs @ [c]) self = perform (run cs self) c"
  by (simp add: run_def)

lemma perform_frame:
  "N (perform self c) = N self"
  "d1 (perform self c) = d1 self"
  "d2 (perform self c) = d2 self"
  "epsr1 (perform self c) = epsr1 self"
  "epsr2 (perform self c) = epsr2 self"
  "mur1 (perform self c) = mur1 self"
  "mur2 (perform self c) = mur2 self"
  "Z1 (perform self c) = Z1 self"
  "Z2 (perform self c) = Z2 self"
  by (cases c; simp add: ctm_frame cpm_frame)+

lemma run_frame:
  "N (run cs self) = N self"
  "d1 (run cs self) = d1 self"
  "d2 (run cs self) = d2 self"
  "epsr1 (run cs self) = epsr1 self"
  "epsr2 (run cs self) = epsr2 self"
  "mur1 (run cs self) = mur1 self"
  "mur2 (run cs self) = mur2 self"
  "Z1 (run cs self) = Z1 self"
  "Z2 (run cs self) = Z2 self"
  by (induction cs rule: rev_induct; simp add: run_Nil run_snoc perform_frame)+

lemma run_envEpsr:
  "envEpsr (run cs self) = None \<longleftrightarrow>
     envEpsr self = None \<and> (\<forall>e mu. SetEnvironment e mu \<notin> set cs)"
proof (induction cs rule: rev_induct)
  case Nil
  show ?case by (simp add: run_Nil)
next
  case (snoc c cs)
  show ?case
  proof (cases c)
    case (SetEnvironment e mu)
    then show ?thesis by (auto simp add: run_snoc ctm_env)
  next
    case (SetFrequency w)
    then show ?thesis using snoc by (simp add: run_snoc cpm_frame)
  qed
qed

lemma run_omega:
  "omega (run cs self) = None \<longleftrightarrow>
     omega self = None \<and> (\<forall>w. SetFrequency w \<notin> set cs)"
proof (induction cs rule: rev_induct)
  case Nil
  show ?case by (simp add: run_Nil)
next
  case (snoc c cs)
  show ?case
  proof (cases c)
    case (SetEnvironment e mu)
    then show ?thesis using snoc by (simp add: run_snoc ctm_frame)
  next
    case (SetFrequency w)
    then show ?thesis by (auto simp add: run_snoc cpm_omega)
  qed
qed

lemma ctm_env_built:
  "e \<noteq> 0 \<Longrightarrow> env_built (snd (calculateTransferMatrices e mu self))"
  by (simp add: env_built_def ctm_last ctm_table ctm_frame)

lemma perform_env_built: "env_built self \<Longrightarrow> env_built (perform self c)"
proof (cases c)
  case (SetEnvironment e mu)
  assume b: "env_built self"
  show ?thesis
  proof (cases "e = 0")
    case True
    with b SetEnvironment show ?thesis
      by (simp add: env_built_def ctm_raise ctm_frame)
  next
    case False
    with SetEnvironment show ?thesis by (simp add: ctm_env_built)
  qed
next
  case (SetFrequency w)
  assume "env_built self"
  with SetFrequency show ?thesis by (simp add: env_built_def cpm_frame)
qed

lemma run_env_built:
  "SetEnvironment e mu \<in> set cs \<Longrightarrow> e \<noteq> 0 \<Longrightarrow> env_built (run cs self)"
proof (induction cs rule: rev_induct)
  case Nil
  then show ?case by simp
next
  case (snoc c cs)
  show ?case
  proof (cases "c = SetEnvironment e mu")
    case True
    with snoc.prems show ?thesis by (simp add: run_snoc ctm_env_built)
  next
    case False
    with snoc have "env_built (run cs self)" by simp
    then show ?thesis by (simp add: run_snoc perform_env_built)
  qed
qed

lemma perform_freq_built: "freq_built self \<Longrightarrow> freq_built (perform self c)"
  by (cases c) (simp_all add: freq_built_def ctm_frame cpm_table)

lemma run_freq_built:
  "SetFrequency w \<in> set cs \<Longrightarrow> freq_built (run cs self)"
proof (induction cs rule: rev_induct)
  case Nil
  then show ?case by simp
next
  case (snoc c cs)
  show ?case
  proof (cases "c = SetFrequency w")
    case True
    then show ?thesis by (simp add: run_snoc freq_built_def cpm_table)
  next
    case False
    with snoc have "freq_built (run cs self)" by simp
    then show ?thesis by (simp add: run_snoc perform_freq_built)
  qed
qed

lemma init_Inr:
  "init n dd1 dd2 e1 e2 mu1 mu2 = Inr self0 \<Longrightarrow>
     N self0 = n \<and> d1 self0 = dd1 \<and> d2 self0 = dd2 \<and>
     epsr1 self0 = e1 \<and> epsr2 self0 = e2 \<and> mur1 self0 = mu1 \<and> mur2 self0 = mu2 \<and>
     Z1 self0 = sqrt ((Mu0 * mu1) / (Eps0 * e1)) \<and> Z2 self0 = sqrt ((Mu0 * mu2) / (Eps0 * e2)) \<and>
     last_layer self0 = None \<and> transferMatrices self0 = Map.empty \<and>
     propagationMatrices self0 = Map.empty \<and>
     envEpsr self0 = None \<and> envMur self0 = None \<and> omega self0 = None"
  by (auto simp add: init_def split: if_splits)

lemma init_projr:
  "e1 \<noteq> 0 \<Longrightarrow> e2 \<noteq> 0 \<Longrightarrow>
     init n dd1 dd2 e1 e2 mu1 mu2 = Inr (projr (init n dd1 dd2 e1 e2 mu1 mu2))"
  by (simp add: init_def Eps0_neq_0)

lemma init_consistent: "init n dd1 dd2 e1 e2 mu1 mu2 = Inr self0 \<Longrightarrow> consistent self0"
  by (drule init_Inr) (simp add: consistent_def)

lemma perform_consistent: "consistent self \<Longrightarrow> consistent (perform self c)"
proof (cases c)
  case (SetEnvironment e mu)
  assume c: "consistent self"
  show ?thesis
  proof (cases "e = 0")
    case True
    have "env_built self \<Longrightarrow> env_built (perform self c)" by (rule perform_env_built)
    with c True SetEnvironment show ?thesis
      by (auto simp add: consistent_def ctm_frame ctm_raise freq_built_def)
  next
    case False
    with c SetEnvironment show ?thesis
      by (auto simp add: consistent_def ctm_frame ctm_env_built freq_built_def)
  qed
next
  case (SetFrequency w)
  assume c: "consistent self"
  have "freq_built (calculatePropagationMatrices w self)"
    by (simp add: freq_built_def cpm_table)
  moreover have "env_built self \<Longrightarrow> env_built (perform self c)" by (rule perform_env_built)
  ultimately show ?thesis using c SetFrequency
    by (auto simp add: consistent_def cpm_frame)
qed

lemma run_consistent: "consistent self \<Longrightarrow> consistent (run cs self)"
  by (induction cs rule: rev_induct) (simp_all add: run_Nil run_snoc perform_consistent)

subsection \<open>The loop and the cascade\<close>

lemma spec_flags_0: "spec_flags f 0 = []"
  by (simp add: spec_flags_def)

lemma spec_flags_Suc:
  "f = 0 \<or> f = 1 \<Longrightarrow> spec_flags f (Suc k) = f # spec_flags ((f + 1) mod 2) k"
proof -
  assume f: "f = 0 \<or> f = 1"
  have "[0..<Suc k] = 0 # map Suc [0..<k]"
    by (simp add: upt_conv_Cons map_Suc_upt del: upt_Suc)
  then have "spec_flags f (Suc k) = (f mod 2) # map (\<lambda>i. (f + int (Suc i)) mod 2) [0..<k]"
    by (simp add: spec_flags_def comp_def del: upt_Suc)
  moreover have "(f + int (Suc i)) mod 2 = ((f + 1) mod 2 + int i) mod 2" for i
    by presburger
  moreover have "f mod 2 = f" using f by auto
  ultimately show ?thesis by (simp add: spec_flags_def)
qed

lemma length_spec_flags: "length (spec_flags f k) = k"
  by (simp add: spec_flags_def)

lemma for_range_spec:
  assumes "propagationMatrices self ''one'' = Some P1"
    and "propagationMatrices self ''two'' = Some P2"
    and "transferMatrices self ''one2two'' = Some T12"
    and "transferMatrices self ''two2one'' = Some T21"
  shows "f = 0 \<or> f = 1 \<Longrightarrow>
     for_range k self (Q, f) =
       Inr (foldl (spec_step T12 T21 P1 P2) Q (spec_flags f k), (f + int k) mod 2)"
proof (induction k arbitrary: Q f)
  case 0
  then show ?case by (auto simp add: spec_flags_0)
next
  case (Suc k)
  have body: "loop_body self (Q, f) = Inr (spec_step T12 T21 P1 P2 Q f, (f + 1) mod 2)"
    using assms Suc.prems by (auto simp add: loop_body_def getitem_def spec_step_def)
  have next_flag: "(f + 1) mod 2 = 0 \<or> (f + 1) mod 2 = 1"
    using Suc.prems by auto
  have "((f + 1) mod 2 + int k) mod 2 = (f + int (Suc k)) mod 2"
    by presburger
  with Suc.IH [OF next_flag] body Suc.prems show ?case
    by (simp add: spec_flags_Suc)
qed

lemma simulate_rt_tables:
  assumes env: "envEpsr self \<noteq> None" and om: "omega self \<noteq> None"
    and L: "transferMatrices self ''last2env'' = Some L"
    and T12: "transferMatrices self ''one2two'' = Some T12"
    and T21: "transferMatrices self ''two2one'' = Some T21"
    and E: "transferMatrices self ''env2one'' = Some E"
    and P1: "propagationMatrices self ''one'' = Some P1"
    and P2: "propagationMatrices self ''two'' = Some P2"
    and l: "last_layer self = Some l" and l12: "l = 1 \<or> l = 2"
  shows "simulate_rt self RT =
     (if (l - 1 + int (nat (N self - 1))) mod 2 \<noteq> 0 then Inl AssertionError
      else let Q = spec_cascade L T12 T21 E P1 P2 (l - 1) (nat (N self - 1));
               r = - m10 Q / m11 Q;
               t = m00 Q - (m01 Q * m10 Q) / m11 Q
           in if RT then Inr (Powers ((cmod r) ^ 2) (1 - (cmod r) ^ 2)) else Inr (Amplitudes r t))"
proof -
  from l12 have f: "l - 1 = 0 \<or> l - 1 = 1" by auto
  have loop: "for_range (nat (N self - 1)) self (L, l - 1) =
      Inr (foldl (spec_step T12 T21 P1 P2) L (spec_flags (l - 1) (nat (N self - 1))),
           (l - 1 + int (nat (N self - 1))) mod 2)"
    by (rule for_range_spec [OF P1 P2 T12 T21 f])
  show ?thesis
    using env om L E P1 l
    by (auto simp add: simulate_rt_def getitem_def loop spec_cascade_def Let_def)
qed

lemma parity_flag:
  "1 \<le> n \<Longrightarrow> ((if n mod 2 = 0 then 2 else 1) - 1 + int (nat (n - 1))) mod 2 = (0::int)"
  by (auto; presburger)

lemma for_range_error: "for_range k self s = Inl e \<Longrightarrow> e = KeyError"
proof (induction k arbitrary: s)
  case 0
  then show ?case by simp
next
  case (Suc k)
  show ?case
  proof (cases "loop_body self s")
    case (Inl e')
    with Suc.prems have "e' = e" by simp
    with Inl show ?thesis
      by (cases s) (auto simp add: loop_body_def getitem_def split: if_splits option.splits)
  next
    case (Inr s')
    with Suc show ?thesis by simp
  qed
qed

lemma simulate_rt_ValueError:
  "simulate_rt self RT = Inl ValueError \<longleftrightarrow> envEpsr self = None \<or> omega self = None"
proof (cases "envEpsr self = None \<or> omega self = None")
  case True
  then show ?thesis by (auto simp add: simulate_rt_def)
next
  case False
  have "for_range k self s \<noteq> Inl ValueError" for k s
    using for_range_error [of k self s ValueError] by auto
  then have "simulate_rt self RT \<noteq> Inl ValueError"
    using False
    by (auto simp add: simulate_rt_def getitem_def Let_def
        split: option.splits sum.splits prod.splits if_splits)
  with False show ?thesis by simp
qed

lemma simulate_rt_returns:
  assumes "simulate_rt self RT = Inr res"
  shows "envEpsr self \<noteq> None \<and> omega self \<noteq> None \<and> transferMatrices self ''last2env'' \<noteq> None"
  using assms
  by (auto simp add: simulate_rt_def getitem_def split: if_splits option.splits)

lemma run_ready:
  assumes "init n dd1 dd2 e1 e2 mu1 mu2 = Inr self0"
    and "SetEnvironment e mu \<in> set cs" and "e \<noteq> 0"
    and "SetFrequency w \<in> set cs"
  shows "envEpsr (run cs self0) \<noteq> None \<and> omega (run cs self0) \<noteq> None \<and>
         env_built (run cs self0) \<and> freq_built (run cs self0) \<and> N (run cs self0) = n"
  using assms run_envEpsr [of cs self0] run_omega [of cs self0]
    run_env_built [of e mu cs self0] run_freq_built [of w cs self0] init_Inr [of n dd1 dd2 e1 e2 mu1 mu2 self0]
  by (auto simp add: run_frame)

lemma half_array_spec: "half_array delta = spec_interface delta"
  by (simp add: half_array_def spec_interface_def)

lemma exp_i_real: "exp (\<i> * complex_of_real k * complex_of_real d) = cis (k * d)"
  by (simp add: cis_conv_exp mult.assoc)

lemma exp_minus_i_real: "exp (- \<i> * complex_of_real k * complex_of_real d) = cis (- (k * d))"
  by (simp add: cis_conv_exp mult.assoc)

lemma cpm_entries:
  "propagationMatrices (calculatePropagationMatrices w self) ''one'' =
     Some (spec_propagation (w * sqrt (Eps0 * Mu0 * epsr1 self * mur1 self)) (d1 self))"
  "propagationMatrices (calculatePropagationMatrices w self) ''two'' =
     Some (spec_propagation (w * sqrt (Eps0 * Mu0 * epsr2 self * mur2 self)) (d2 self))"
  by (simp_all only: cpm_table exp_i_real exp_minus_i_real spec_propagation_def) simp_all

lemma spec_propagation_entries:
  "m00 (spec_propagation k d) = exp (\<i> * complex_of_real k * complex_of_real d)"
  "m11 (spec_propagation k d) = exp (- \<i> * complex_of_real k * complex_of_real d)"
  "m01 (spec_propagation k d) = 0"
  "m10 (spec_propagation k d) = 0"
  "m11 (spec_propagation k d) = cnj (m00 (spec_propagation k d))"
  by (simp_all only: exp_i_real exp_minus_i_real spec_propagation_def mat22.sel cis_cnj)

subsection \<open>The matched stack\<close>

lemma half_array_one: "half_array 1 = Mat22 1 0 0 1"
  by (simp add: half_array_def)

lemma matmul_identity: "matmul (Mat22 1 0 0 1) A = A" "matmul A (Mat22 1 0 0 1) = A"
  by (cases A; simp add: matmul_def)+

lemma vacuum_impedance: "sqrt (Mu0 / Eps0) \<noteq> 0"
  using Mu0_pos Eps0_pos by simp

lemma ctm_all_identity:
  assumes "N self = 1" and "Z1 self = sqrt (Mu0 / Eps0)" and "Z2 self = sqrt (Mu0 / Eps0)"
  shows "all_identity (snd (calculateTransferMatrices 1 1 self))"
proof -
  have one: "(1::real) \<noteq> 0" by simp
  have ratio: "sqrt (Mu0 / Eps0) / sqrt (Mu0 / Eps0) = 1"
    using vacuum_impedance by simp
  show ?thesis
    unfolding all_identity_def
    using assms ratio
    by (simp add: ctm_table [OF one] ctm_last [OF one] half_array_one)
qed

lemma perform_all_identity:
  "all_identity self \<Longrightarrow> all_identity (perform self (SetFrequency w))"
  by (simp add: all_identity_def cpm_frame)

lemma run_all_identity:
  assumes "init 1 dd1 dd2 1 1 1 1 = Inr self0"
  shows "SetEnvironment 1 1 \<in> set cs \<Longrightarrow>
         \<forall>e mu. SetEnvironment e mu \<in> set cs \<longrightarrow> e = 1 \<and> mu = 1 \<Longrightarrow>
         all_identity (run cs self0)"
proof (induction cs rule: rev_induct)
  case Nil
  then show ?case by simp
next
  case (snoc c cs)
  show ?case
  proof (cases c)
    case (SetEnvironment e mu)
    with snoc.prems have c: "c = SetEnvironment 1 1" by simp
    from init_Inr [OF assms] have
      "N (run cs self0) = 1" "Z1 (run cs self0) = sqrt (Mu0 / Eps0)"
      "Z2 (run cs self0) = sqrt (Mu0 / Eps0)"
      by (simp_all add: run_frame)
    then show ?thesis using c by (simp add: run_snoc ctm_all_identity)
  next
    case (SetFrequency w)
    with snoc.prems have "SetEnvironment 1 1 \<in> set cs"
      and "\<forall>e mu. SetEnvironment e mu \<in> set cs \<longrightarrow> e = 1 \<and> mu = 1"
      by auto
    then have "all_identity (run cs self0)" by (rule snoc.IH)
    with SetFrequency show ?thesis
      by (simp add: run_snoc del: perform.simps add: perform_all_identity)
  qed
qed

lemma matched_simulate:
  assumes i: "init 1 dd1 dd2 1 1 1 1 = Inr self0"
    and env: "SetEnvironment 1 1 \<in> set cs"
    and only: "\<forall>e mu. SetEnvironment e mu \<in> set cs \<longrightarrow> e = 1 \<and> mu = 1"
  shows "simulate_rt (calculatePropagationMatrices w (run cs self0)) RT =
     (if RT then Inr (Powers 0 1)
      else Inr (Amplitudes 0 (exp (\<i> * complex_of_real (w * sqrt (Eps0 * Mu0)) * complex_of_real dd1))))"
proof -
  let ?self = "calculatePropagationMatrices w (run cs self0)"
  let ?k = "w * sqrt (Eps0 * Mu0 * epsr1 (run cs self0) * mur1 (run cs self0))"
  let ?P1 = "spec_propagation ?k (d1 (run cs self0))"
  let ?P2 = "spec_propagation (w * sqrt (Eps0 * Mu0 * epsr2 (run cs self0) * mur2 (run cs self0))) (d2 (run cs self0))"
  let ?I = "Mat22 1 0 0 1"
  from init_Inr [OF i] have mat: "epsr1 (run cs self0) = 1" "mur1 (run cs self0) = 1"
    "d1 (run cs self0) = dd1" "N (run cs self0) = 1"
    by (simp_all add: run_frame)
  have "all_identity (run cs self0)" by (rule run_all_identity [OF i env only])
  then have tabs: "transferMatrices ?self ''last2env'' = Some ?I"
    "transferMatrices ?self ''one2two'' = Some ?I"
    "transferMatrices ?self ''two2one'' = Some ?I"
    "transferMatrices ?self ''env2one'' = Some ?I"
    and l: "last_layer ?self = Some 1"
    by (simp_all add: all_identity_def cpm_frame)
  have props: "propagationMatrices ?self ''one'' = Some ?P1"
    "propagationMatrices ?self ''two'' = Some ?P2"
    by (rule cpm_entries)+
  have env': "envEpsr ?self \<noteq> None"
    using run_envEpsr [of cs self0] env by (auto simp add: cpm_frame)
  have om: "omega ?self \<noteq> None" by (simp add: cpm_omega)
  have n: "N ?self = 1" using mat by (simp add: cpm_frame)
  have Q: "spec_cascade ?I ?I ?I ?I ?P1 ?P2 (1 - 1) (nat (N ?self - 1)) = ?P1"
    using n by (simp add: spec_cascade_def spec_flags_0 matmul_identity)
  have k: "?k = w * sqrt (Eps0 * Mu0)" using mat by simp
  have "simulate_rt ?self RT =
    (if RT then Inr (Powers 0 1) else Inr (Amplitudes 0 (cis (?k * dd1))))"
    using simulate_rt_tables [OF env' om tabs props l, of RT] n
    unfolding Q
    by (simp add: spec_propagation_def mat Let_def)
  then show ?thesis
    by (simp only: k exp_i_real)
qed

subsection \<open>The keys of the two dictionaries\<close>

lemma perform_dom:
  "dom (transferMatrices self) \<subseteq> {''env2one'', ''one2two'', ''two2one'', ''last2env''} \<Longrightarrow>
   dom (transferMatrices (perform self c)) \<subseteq> {''env2one'', ''one2two'', ''two2one'', ''last2env''}"
  "dom (propagationMatrices self) \<subseteq> {''one'', ''two''} \<Longrightarrow>
   dom (propagationMatrices (perform self c)) \<subseteq> {''one'', ''two''}"
proof -
  assume "dom (transferMatrices self) \<subseteq> {''env2one'', ''one2two'', ''two2one'', ''last2env''}"
  then show "dom (transferMatrices (perform self c)) \<subseteq> {''env2one'', ''one2two'', ''two2one'', ''last2env''}"
  proof (cases c)
    case (SetEnvironment e mu)
    assume d: "dom (transferMatrices self) \<subseteq> {''env2one'', ''one2two'', ''two2one'', ''last2env''}"
    show ?thesis
    proof (cases "e = 0")
      case True
      with d SetEnvironment show ?thesis by (simp add: ctm_raise)
    next
      case False
      with d SetEnvironment show ?thesis by (auto simp add: ctm_table)
    qed
  next
    case (SetFrequency w)
    assume "dom (transferMatrices self) \<subseteq> {''env2one'', ''one2two'', ''two2one'', ''last2env''}"
    with SetFrequency show ?thesis by (simp add: cpm_frame)
  qed
next
  assume "dom (propagationMatrices self) \<subseteq> {''one'', ''two''}"
  then show "dom (propagationMatrices (perform self c)) \<subseteq> {''one'', ''two''}"
    by (cases c) (auto simp add: ctm_frame cpm_table)
qed

lemma run_dom:
  assumes "init n dd1 dd2 e1 e2 mu1 mu2 = Inr self0"
  shows "dom (transferMatrices (run cs self0)) \<subseteq> {''env2one'', ''one2two'', ''two2one'', ''last2env''}"
    and "dom (propagationMatrices (run cs self0)) \<subseteq> {''one'', ''two''}"
proof -
  show "dom (transferMatrices (run cs self0)) \<subseteq> {''env2one'', ''one2two'', ''two2one'', ''last2env''}"
    using init_Inr [OF assms]
    by (induction cs rule: rev_induct) (simp_all add: run_Nil run_snoc perform_dom del: perform.simps)
  show "dom (propagationMatrices (run cs self0)) \<subseteq> {''one'', ''two''}"
    using init_Inr [OF assms]
    by (induction cs rule: rev_induct) (simp_all add: run_Nil run_snoc perform_dom del: perform.simps)
qed

lemma overwrite2:
  assumes "dom m \<subseteq> {a, b}" and "dom m' \<subseteq> {a, b}"
  shows "m(a \<mapsto> x, b \<mapsto> y) = m'(a \<mapsto> x, b \<mapsto> y)"
proof
  fix k
  show "(m(a \<mapsto> x, b \<mapsto> y)) k = (m'(a \<mapsto> x, b \<mapsto> y)) k"
  proof (cases "k \<in> {a, b}")
    case True
    then show ?thesis by auto
  next
    case False
    with assms have "m k = None" "m' k = None" by (auto simp add: domIff)
    with False show ?thesis by simp
  qed
qed

lemma overwrite4:
  assumes "dom m \<subseteq> {a, b, c, d}" and "dom m' \<subseteq> {a, b, c, d}"
  shows "m(a \<mapsto> x, b \<mapsto> y, c \<mapsto> z, d \<mapsto> u) = m'(a \<mapsto> x, b \<mapsto> y, c \<mapsto> z, d \<mapsto> u)"
proof
  fix k
  show "(m(a \<mapsto> x, b \<mapsto> y, c \<mapsto> z, d \<mapsto> u)) k = (m'(a \<mapsto> x, b \<mapsto> y, c \<mapsto> z, d \<mapsto> u)) k"
  proof (cases "k \<in> {a, b, c, d}")
    case True
    then show ?thesis by auto
  next
    case False
    with assms have "m k = None" "m' k = None" by (auto simp add: domIff)
    with False show ?thesis by simp
  qed
qed

subsection \<open>Lossless configurations\<close>

text \<open>
  In exact arithmetic, with positive material and environment constants every stored
  array is balanced, and so is every product of them: the entry \<open>Q[1,1]\<close> by which
  \<^verbatim>\<open>simulate_rt\<close> divides is not zero, and \<open>|Q[1,0]| < |Q[1,1]|\<close>. Rounding and overflow
  in long products are outside the model.
\<close>

lemma balanced_m11: "balanced A \<Longrightarrow> m11 A \<noteq> 0"
proof
  assume b: "balanced A" and z: "m11 A = 0"
  then have "m00 A = 0" by (simp add: balanced_def)
  with b have "(cmod (m01 A))\<^sup>2 < 0" by (simp add: balanced_def)
  then show False by (simp add: not_less [symmetric])
qed

lemma cmod_diff_mult:
  "(cmod (a * b + c * cnj d))\<^sup>2 - (cmod (a * d + c * cnj b))\<^sup>2 =
   ((cmod a)\<^sup>2 - (cmod c)\<^sup>2) * ((cmod b)\<^sup>2 - (cmod d)\<^sup>2)"
  unfolding cmod_power2 by (simp add: power2_eq_square algebra_simps)

lemma balanced_matmul:
  assumes "balanced A" and "balanced B"
  shows "balanced (matmul A B)"
proof -
  from assms have
    A: "m11 A = cnj (m00 A)" "m10 A = cnj (m01 A)" "0 < (cmod (m00 A))\<^sup>2 - (cmod (m01 A))\<^sup>2"
    and B: "m11 B = cnj (m00 B)" "m10 B = cnj (m01 B)" "0 < (cmod (m00 B))\<^sup>2 - (cmod (m01 B))\<^sup>2"
    by (simp_all add: balanced_def)
  have "0 < ((cmod (m00 A))\<^sup>2 - (cmod (m01 A))\<^sup>2) * ((cmod (m00 B))\<^sup>2 - (cmod (m01 B))\<^sup>2)"
    using A(3) B(3) by (rule mult_pos_pos)
  then have "0 < (cmod (m00 A * m00 B + m01 A * cnj (m01 B)))\<^sup>2 -
      (cmod (m00 A * m01 B + m01 A * cnj (m00 B)))\<^sup>2"
    by (simp only: cmod_diff_mult)
  then show ?thesis
    by (simp add: balanced_def matmul_def A B mult.commute add.commute)
qed

lemma balanced_half_array: "0 < delta \<Longrightarrow> balanced (half_array delta)"
proof -
  assume d: "0 < delta"
  have "(1 - delta)\<^sup>2 < (1 + delta)\<^sup>2"
    using d by (simp add: power2_eq_square algebra_simps)
  then have "\<bar>1 - delta\<bar> < \<bar>1 + delta\<bar>"
    using d by (simp add: abs_less_iff)
  then show ?thesis
    by (simp add: balanced_def half_array_def norm_mult power_mult_distrib power_strict_mono
        del: of_real_mult of_real_add of_real_diff)
qed

lemma balanced_propagation: "balanced (spec_propagation k d)"
  by (simp add: balanced_def spec_propagation_def cis_cnj)

lemma ran_upd_cases: "M \<in> ran (m(k \<mapsto> v)) \<Longrightarrow> M = v \<or> M \<in> ran m"
  by (auto simp add: ran_def split: if_splits)

lemma impedance_pos: "0 < mu \<Longrightarrow> 0 < e \<Longrightarrow> 0 < sqrt ((Mu0 * mu) / (Eps0 * e))"
  using Mu0_pos Eps0_pos by simp

lemma ctm_balanced:
  assumes "0 < e" and "0 < mu" and "0 < Z1 self" and "0 < Z2 self" and "balanced_tables self"
  shows "balanced_tables (snd (calculateTransferMatrices e mu self))"
proof -
  let ?envZ = "sqrt ((Mu0 * mu) / (Eps0 * e))"
  from assms(1) have e: "e \<noteq> 0" by simp
  have z: "0 < ?envZ" by (rule impedance_pos [OF assms(2,1)])
  have b: "balanced (half_array (Z1 self / ?envZ))" "balanced (half_array (Z2 self / Z1 self))"
    "balanced (half_array (Z1 self / Z2 self))"
    "balanced (half_array (?envZ / (if N self mod 2 = 0 then Z2 self else Z1 self)))"
    using z assms(3,4) by (simp_all add: balanced_half_array)
  have "balanced M" if "M \<in> ran (transferMatrices (snd (calculateTransferMatrices e mu self)))" for M
    using that b assms(5)
    unfolding ctm_table [OF e] balanced_tables_def
    by (blast dest: ran_upd_cases)
  with assms(5) show ?thesis
    by (simp add: balanced_tables_def ctm_frame)
qed

lemma cpm_balanced:
  assumes "balanced_tables self"
  shows "balanced_tables (calculatePropagationMatrices w self)"
proof -
  have "balanced M" if "M \<in> ran (propagationMatrices (calculatePropagationMatrices w self))" for M
    using that assms balanced_propagation
    unfolding cpm_table exp_i_real exp_minus_i_real balanced_tables_def spec_propagation_def
    by (blast dest: ran_upd_cases)
  with assms show ?thesis
    by (simp add: balanced_tables_def cpm_frame)
qed

lemma run_balanced:
  assumes "init n dd1 dd2 e1 e2 mu1 mu2 = Inr self0"
    and "0 < e1" and "0 < e2" and "0 < mu1" and "0 < mu2"
  shows "\<forall>e mu. SetEnvironment e mu \<in> set cs \<longrightarrow> 0 < e \<and> 0 < mu \<Longrightarrow>
         balanced_tables (run cs self0)"
proof (induction cs rule: rev_induct)
  case Nil
  from init_Inr [OF assms(1)] show ?case
    by (simp add: run_Nil balanced_tables_def)
next
  case (snoc c cs)
  then have IH: "balanced_tables (run cs self0)" by simp
  show ?case
  proof (cases c)
    case (SetEnvironment e mu)
    with snoc.prems have pos: "0 < e" "0 < mu" by simp_all
    from init_Inr [OF assms(1)] have "0 < Z1 (run cs self0)" "0 < Z2 (run cs self0)"
      using impedance_pos [OF assms(4,2)] impedance_pos [OF assms(5,3)]
      by (simp_all add: run_frame)
    with pos IH SetEnvironment show ?thesis
      by (simp add: run_snoc ctm_balanced)
  next
    case (SetFrequency w)
    with IH show ?thesis by (simp add: run_snoc cpm_balanced)
  qed
qed

lemma foldl_balanced:
  assumes "balanced T12" and "balanced T21" and "balanced P1" and "balanced P2"
  shows "balanced Q \<Longrightarrow> balanced (foldl (spec_step T12 T21 P1 P2) Q fs)"
proof (induction fs arbitrary: Q)
  case Nil
  then show ?case by simp
next
  case (Cons f fs)
  have "balanced (spec_step T12 T21 P1 P2 Q f)"
    using assms Cons.prems by (simp add: spec_step_def balanced_matmul)
  then show ?case by (simp add: Cons.IH)
qed

lemma lossless_simulate:
  assumes i: "init n dd1 dd2 e1 e2 mu1 mu2 = Inr self0"
    and pos: "0 < e1" "0 < e2" "0 < mu1" "0 < mu2"
    and n: "1 \<le> n"
    and env: "SetEnvironment e mu \<in> set cs"
    and envs: "\<forall>e mu. SetEnvironment e mu \<in> set cs \<longrightarrow> 0 < e \<and> 0 < mu"
    and freq: "SetFrequency w \<in> set cs"
  shows "\<exists>Q. simulate_rt (run cs self0) False =
           Inr (Amplitudes (- m10 Q / m11 Q) (m00 Q - (m01 Q * m10 Q) / m11 Q)) \<and>
         m11 Q \<noteq> 0 \<and> (cmod (m10 Q))\<^sup>2 < (cmod (m11 Q))\<^sup>2"
proof -
  let ?self = "run cs self0"
  let ?l = "if n mod 2 = 0 then 2 else 1 :: int"
  from env envs have e: "e \<noteq> 0" by auto
  from run_ready [OF i env e freq]
  have env': "envEpsr ?self \<noteq> None" and om: "omega ?self \<noteq> None"
    and eb: "env_built ?self" and fb: "freq_built ?self" and nn: "N ?self = n"
    by simp_all
  from eb nn obtain L T12 T21 E where
    tabs: "transferMatrices ?self ''last2env'' = Some L"
      "transferMatrices ?self ''one2two'' = Some T12"
      "transferMatrices ?self ''two2one'' = Some T21"
      "transferMatrices ?self ''env2one'' = Some E"
    and l: "last_layer ?self = Some ?l"
    by (auto simp add: env_built_def)
  from fb obtain P1 P2 where
    props: "propagationMatrices ?self ''one'' = Some P1"
      "propagationMatrices ?self ''two'' = Some P2"
    by (auto simp add: freq_built_def)
  have "balanced_tables ?self" by (rule run_balanced [OF i pos envs])
  with tabs props have b: "balanced L" "balanced T12" "balanced T21" "balanced E"
    "balanced P1" "balanced P2"
    by (auto simp add: balanced_tables_def ran_def)
  define Q where "Q = spec_cascade L T12 T21 E P1 P2 (?l - 1) (nat (n - 1))"
  have bQ: "balanced Q"
    unfolding Q_def spec_cascade_def
    by (intro balanced_matmul foldl_balanced b)
  have l12: "?l = 1 \<or> ?l = 2" by simp
  have flag0: "(?l - 1 + int (nat (N ?self - 1))) mod 2 = 0"
    using parity_flag [OF n] nn by simp
  have "simulate_rt ?self False =
      Inr (Amplitudes (- m10 Q / m11 Q) (m00 Q - (m01 Q * m10 Q) / m11 Q))"
    using simulate_rt_tables [OF env' om tabs props l l12, of False] flag0 nn
    by (simp add: Let_def Q_def)
  moreover have "m11 Q \<noteq> 0" by (rule balanced_m11 [OF bQ])
  moreover have "(cmod (m10 Q))\<^sup>2 < (cmod (m11 Q))\<^sup>2"
    using bQ by (simp add: balanced_def)
  ultimately show ?thesis by blast
qed

section \<open>The claims\<close>

text \<open>
  C1. On an object created with \<open>1 \<le> N\<close> on which \<^verbatim>\<open>calculateTransferMatrices\<close> has
  returned at least once and \<^verbatim>\<open>calculatePropagationMatrices\<close> has been called at least
  once, in any order among any other setter calls, all six arrays are stored and
  \<^verbatim>\<open>simulate_rt\<close> returns the amplitudes of the cascade as the specification words it:
  the running product starts from "last2env", the flag starts at \<open>last - 1\<close>, there are
  exactly \<open>N - 1\<close> steps, each multiplying on the right by the propagation array of the
  flagged layer type and by the crossing array ("two2one" at flag 0, "one2two" at flag 1)
  with the flag flipped after it, then the type-1 propagation array and "env2one" close
  the product \<open>Q\<close>; the results are \<open>r = - Q[1,0] / Q[1,1]\<close> and
  \<open>t = Q[0,0] - (Q[0,1] Q[1,0]) / Q[1,1]\<close>.
\<close>

theorem simulate_rt_cascade:
  assumes "init n dd1 dd2 e1 e2 mu1 mu2 = Inr self0" and "1 \<le> n"
    and "SetEnvironment e mu \<in> set cs" and "e \<noteq> 0"
    and "SetFrequency w \<in> set cs"
  shows "\<exists>L T12 T21 E P1 P2 l Q.
     transferMatrices (run cs self0) ''last2env'' = Some L \<and>
     transferMatrices (run cs self0) ''one2two'' = Some T12 \<and>
     transferMatrices (run cs self0) ''two2one'' = Some T21 \<and>
     transferMatrices (run cs self0) ''env2one'' = Some E \<and>
     propagationMatrices (run cs self0) ''one'' = Some P1 \<and>
     propagationMatrices (run cs self0) ''two'' = Some P2 \<and>
     last_layer (run cs self0) = Some l \<and>
     l = (if n mod 2 = 0 then 2 else 1) \<and>
     length (spec_flags (l - 1) (nat (n - 1))) = nat (n - 1) \<and>
     Q = spec_cascade L T12 T21 E P1 P2 (l - 1) (nat (n - 1)) \<and>
     simulate_rt (run cs self0) False =
       Inr (Amplitudes (- m10 Q / m11 Q) (m00 Q - (m01 Q * m10 Q) / m11 Q))"
proof -
  let ?self = "run cs self0"
  let ?l = "if n mod 2 = 0 then 2 else 1 :: int"
  from run_ready [OF assms(1,3,4,5)]
  have env: "envEpsr ?self \<noteq> None" and om: "omega ?self \<noteq> None"
    and eb: "env_built ?self" and fb: "freq_built ?self" and n: "N ?self = n"
    by simp_all
  from eb n obtain L T12 T21 E where
    tabs: "transferMatrices ?self ''last2env'' = Some L"
      "transferMatrices ?self ''one2two'' = Some T12"
      "transferMatrices ?self ''two2one'' = Some T21"
      "transferMatrices ?self ''env2one'' = Some E"
    and l: "last_layer ?self = Some ?l"
    by (auto simp add: env_built_def)
  from fb obtain P1 P2 where
    props: "propagationMatrices ?self ''one'' = Some P1"
      "propagationMatrices ?self ''two'' = Some P2"
    by (auto simp add: freq_built_def)
  have l12: "?l = 1 \<or> ?l = 2" by simp
  have flag0: "(?l - 1 + int (nat (N ?self - 1))) mod 2 = 0"
    using parity_flag [OF assms(2)] n by simp
  have "simulate_rt ?self False =
      (let Q = spec_cascade L T12 T21 E P1 P2 (?l - 1) (nat (n - 1))
       in Inr (Amplitudes (- m10 Q / m11 Q) (m00 Q - (m01 Q * m10 Q) / m11 Q)))"
    using simulate_rt_tables [OF env om tabs props l l12, of False] flag0 n
    by (simp add: Let_def)
  with tabs props l show ?thesis
    by (simp add: Let_def length_spec_flags)
qed

text \<open>
  The cascade of a stack of three layers in vacuum, with \<open>epsr1 = 2\<close> and \<open>epsr2 = 4\<close>.
\<close>

theorem simulate_rt_cascade_witness:
  "(1::int) \<le> 3 \<and>
   SetEnvironment 1 1 \<in> set [SetEnvironment 1 1, SetFrequency 1] \<and>
   SetFrequency 1 \<in> set [SetEnvironment 1 1, SetFrequency 1] \<and>
   (\<exists>L T12 T21 E P1 P2.
      simulate_rt (run [SetEnvironment 1 1, SetFrequency 1] (projr (init 3 1 1 2 4 1 1))) False =
        Inr (Amplitudes
          (- m10 (spec_cascade L T12 T21 E P1 P2 0 2) / m11 (spec_cascade L T12 T21 E P1 P2 0 2))
          (m00 (spec_cascade L T12 T21 E P1 P2 0 2) -
             (m01 (spec_cascade L T12 T21 E P1 P2 0 2) * m10 (spec_cascade L T12 T21 E P1 P2 0 2)) /
               m11 (spec_cascade L T12 T21 E P1 P2 0 2))))"
proof -
  have i: "init 3 1 1 2 4 1 1 = Inr (projr (init 3 1 1 2 4 1 1))"
    by (rule init_projr) simp_all
  from simulate_rt_cascade [OF i, of 1 1 "[SetEnvironment 1 1, SetFrequency 1]" 1]
  obtain L T12 T21 E P1 P2 l Q where
    "l = (if (3::int) mod 2 = 0 then 2 else 1)"
    "Q = spec_cascade L T12 T21 E P1 P2 (l - 1) (nat (3 - 1))"
    "simulate_rt (run [SetEnvironment 1 1, SetFrequency 1] (projr (init 3 1 1 2 4 1 1))) False =
       Inr (Amplitudes (- m10 Q / m11 Q) (m00 Q - (m01 Q * m10 Q) / m11 Q))"
    by auto
  then have "simulate_rt (run [SetEnvironment 1 1, SetFrequency 1] (projr (init 3 1 1 2 4 1 1))) False =
        Inr (Amplitudes
          (- m10 (spec_cascade L T12 T21 E P1 P2 0 2) / m11 (spec_cascade L T12 T21 E P1 P2 0 2))
          (m00 (spec_cascade L T12 T21 E P1 P2 0 2) -
             (m01 (spec_cascade L T12 T21 E P1 P2 0 2) * m10 (spec_cascade L T12 T21 E P1 P2 0 2)) /
               m11 (spec_cascade L T12 T21 E P1 P2 0 2)))"
    by simp
  then have ex: "\<exists>L T12 T21 E P1 P2.
      simulate_rt (run [SetEnvironment 1 1, SetFrequency 1] (projr (init 3 1 1 2 4 1 1))) False =
        Inr (Amplitudes
          (- m10 (spec_cascade L T12 T21 E P1 P2 0 2) / m11 (spec_cascade L T12 T21 E P1 P2 0 2))
          (m00 (spec_cascade L T12 T21 E P1 P2 0 2) -
             (m01 (spec_cascade L T12 T21 E P1 P2 0 2) * m10 (spec_cascade L T12 T21 E P1 P2 0 2)) /
               m11 (spec_cascade L T12 T21 E P1 P2 0 2)))"
    by blast
  show ?thesis by (intro conjI ex) simp_all
qed

text \<open>
  C2. On an object created by \<^verbatim>\<open>__init__\<close> and taken through any list of setter calls:
  whenever \<^verbatim>\<open>simulate_rt\<close> with \<^verbatim>\<open>RT=True\<close> returns, it returns the pair \<open>(R, T)\<close> with
  \<open>R = |r|\<^sup>2\<close> and \<open>T = 1 - R\<close>, where \<open>r = - Q[1,0] / Q[1,1]\<close> is the reflection amplitude
  of the cascade \<open>Q\<close> of the stored arrays, as the specification words that cascade, so
  that \<open>R + T = 1\<close>; the same call with \<^verbatim>\<open>RT=False\<close> returns the complex pair \<open>(r, t)\<close> of
  that cascade, and whenever it returns \<open>(r, t)\<close> the call with \<^verbatim>\<open>RT=True\<close> returns
  \<open>(|r|\<^sup>2, 1 - |r|\<^sup>2)\<close>. With \<open>1 \<le> N\<close>, the environment set by a call that returned and
  the frequency set, the call does return, at every frequency and for every choice of
  the constants. Neither call returns the other's kind of pair, and both raise the same
  exceptions. The equation \<open>R + T = 1\<close> is exact over the reals, where the source
  computes \<open>T\<close> as \<open>1 - R\<close> in floating point.
\<close>

theorem simulate_rt_power:
  assumes "init n dd1 dd2 e1 e2 mu1 mu2 = Inr self0"
  shows "(simulate_rt (run cs self0) True = Inr (Powers R T) \<longrightarrow>
      (\<exists>L T12 T21 E P1 P2 l Q.
         transferMatrices (run cs self0) ''last2env'' = Some L \<and>
         transferMatrices (run cs self0) ''one2two'' = Some T12 \<and>
         transferMatrices (run cs self0) ''two2one'' = Some T21 \<and>
         transferMatrices (run cs self0) ''env2one'' = Some E \<and>
         propagationMatrices (run cs self0) ''one'' = Some P1 \<and>
         propagationMatrices (run cs self0) ''two'' = Some P2 \<and>
         last_layer (run cs self0) = Some l \<and>
         Q = spec_cascade L T12 T21 E P1 P2 (l - 1) (nat (n - 1)) \<and>
         R = (cmod (- m10 Q / m11 Q))\<^sup>2 \<and> T = 1 - R \<and> R + T = 1 \<and>
         simulate_rt (run cs self0) False =
           Inr (Amplitudes (- m10 Q / m11 Q) (m00 Q - (m01 Q * m10 Q) / m11 Q)))) \<and>
     (simulate_rt (run cs self0) False = Inr (Amplitudes r t) \<longrightarrow>
        simulate_rt (run cs self0) True = Inr (Powers ((cmod r)\<^sup>2) (1 - (cmod r)\<^sup>2))) \<and>
     (1 \<le> n \<and> SetEnvironment e mu \<in> set cs \<and> e \<noteq> 0 \<and> SetFrequency w \<in> set cs \<longrightarrow>
        (\<exists>R' T'. simulate_rt (run cs self0) True = Inr (Powers R' T'))) \<and>
     simulate_rt (run cs self0) True \<noteq> Inr (Amplitudes r t) \<and>
     simulate_rt (run cs self0) False \<noteq> Inr (Powers R T) \<and>
     (simulate_rt (run cs self0) True = Inl err \<longleftrightarrow> simulate_rt (run cs self0) False = Inl err)"
proof -
  let ?self = "run cs self0"
  let ?l = "if n mod 2 = 0 then 2 else 1 :: int"
  have nn: "N ?self = n" using init_Inr [OF assms] by (simp add: run_frame)
  have cons: "consistent ?self"
    by (rule run_consistent [OF init_consistent [OF assms]])
  have shape: "\<exists>L T12 T21 E P1 P2.
         transferMatrices ?self ''last2env'' = Some L \<and>
         transferMatrices ?self ''one2two'' = Some T12 \<and>
         transferMatrices ?self ''two2one'' = Some T21 \<and>
         transferMatrices ?self ''env2one'' = Some E \<and>
         propagationMatrices ?self ''one'' = Some P1 \<and>
         propagationMatrices ?self ''two'' = Some P2 \<and>
         last_layer ?self = Some ?l \<and>
         (\<forall>RT. simulate_rt ?self RT =
           (if (?l - 1 + int (nat (n - 1))) mod 2 \<noteq> 0 then Inl AssertionError
            else let Q = spec_cascade L T12 T21 E P1 P2 (?l - 1) (nat (n - 1));
                     r = - m10 Q / m11 Q;
                     t = m00 Q - (m01 Q * m10 Q) / m11 Q
                 in if RT then Inr (Powers ((cmod r) ^ 2) (1 - (cmod r) ^ 2))
                    else Inr (Amplitudes r t)))"
    if env: "envEpsr ?self \<noteq> None" and om: "omega ?self \<noteq> None"
      and last2env: "transferMatrices ?self ''last2env'' \<noteq> None"
  proof -
    from cons om last2env have eb: "env_built ?self" and fb: "freq_built ?self"
      by (auto simp add: consistent_def)
    from eb nn obtain L T12 T21 E where
      tabs: "transferMatrices ?self ''last2env'' = Some L"
        "transferMatrices ?self ''one2two'' = Some T12"
        "transferMatrices ?self ''two2one'' = Some T21"
        "transferMatrices ?self ''env2one'' = Some E"
      and l: "last_layer ?self = Some ?l"
      by (auto simp add: env_built_def)
    from fb obtain P1 P2 where
      props: "propagationMatrices ?self ''one'' = Some P1"
        "propagationMatrices ?self ''two'' = Some P2"
      by (auto simp add: freq_built_def)
    have l12: "?l = 1 \<or> ?l = 2" by simp
    have "simulate_rt ?self RT =
           (if (?l - 1 + int (nat (n - 1))) mod 2 \<noteq> 0 then Inl AssertionError
            else let Q = spec_cascade L T12 T21 E P1 P2 (?l - 1) (nat (n - 1));
                     r = - m10 Q / m11 Q;
                     t = m00 Q - (m01 Q * m10 Q) / m11 Q
                 in if RT then Inr (Powers ((cmod r) ^ 2) (1 - (cmod r) ^ 2))
                    else Inr (Amplitudes r t))" for RT
      using simulate_rt_tables [OF env om tabs props l l12, of RT] nn by simp
    with tabs props l show ?thesis by blast
  qed
  have tied: "\<exists>L T12 T21 E P1 P2 l Q.
         transferMatrices ?self ''last2env'' = Some L \<and>
         transferMatrices ?self ''one2two'' = Some T12 \<and>
         transferMatrices ?self ''two2one'' = Some T21 \<and>
         transferMatrices ?self ''env2one'' = Some E \<and>
         propagationMatrices ?self ''one'' = Some P1 \<and>
         propagationMatrices ?self ''two'' = Some P2 \<and>
         last_layer ?self = Some l \<and>
         Q = spec_cascade L T12 T21 E P1 P2 (l - 1) (nat (n - 1)) \<and>
         R = (cmod (- m10 Q / m11 Q))\<^sup>2 \<and> T = 1 - R \<and> R + T = 1 \<and>
         simulate_rt ?self False =
           Inr (Amplitudes (- m10 Q / m11 Q) (m00 Q - (m01 Q * m10 Q) / m11 Q))"
    if ret: "simulate_rt ?self True = Inr (Powers R T)"
  proof -
    from simulate_rt_returns [OF ret] have "envEpsr ?self \<noteq> None" "omega ?self \<noteq> None"
      "transferMatrices ?self ''last2env'' \<noteq> None"
      by simp_all
    from shape [OF this] obtain L T12 T21 E P1 P2 where
      tabs: "transferMatrices ?self ''last2env'' = Some L"
        "transferMatrices ?self ''one2two'' = Some T12"
        "transferMatrices ?self ''two2one'' = Some T21"
        "transferMatrices ?self ''env2one'' = Some E"
        "propagationMatrices ?self ''one'' = Some P1"
        "propagationMatrices ?self ''two'' = Some P2"
        "last_layer ?self = Some ?l"
      and sim: "\<And>RT. simulate_rt ?self RT =
           (if (?l - 1 + int (nat (n - 1))) mod 2 \<noteq> 0 then Inl AssertionError
            else let Q = spec_cascade L T12 T21 E P1 P2 (?l - 1) (nat (n - 1));
                     r = - m10 Q / m11 Q;
                     t = m00 Q - (m01 Q * m10 Q) / m11 Q
                 in if RT then Inr (Powers ((cmod r) ^ 2) (1 - (cmod r) ^ 2))
                    else Inr (Amplitudes r t))"
      by blast
    define Q where "Q = spec_cascade L T12 T21 E P1 P2 (?l - 1) (nat (n - 1))"
    from ret sim [of True] have flag: "(?l - 1 + int (nat (n - 1))) mod 2 = 0"
      by (auto split: if_splits)
    from ret sim [of True] flag have RT: "R = (cmod (- m10 Q / m11 Q))\<^sup>2" "T = 1 - R"
      by (simp_all add: Let_def Q_def)
    from sim [of False] flag have amp: "simulate_rt ?self False =
           Inr (Amplitudes (- m10 Q / m11 Q) (m00 Q - (m01 Q * m10 Q) / m11 Q))"
      by (simp add: Let_def Q_def)
    from RT have sum: "R + T = 1" by simp
    from tabs Q_def RT sum amp show ?thesis by blast
  qed
  have general: "(simulate_rt s False = Inr (Amplitudes r t) \<longrightarrow>
        simulate_rt s True = Inr (Powers ((cmod r)\<^sup>2) (1 - (cmod r)\<^sup>2))) \<and>
     simulate_rt s True \<noteq> Inr (Amplitudes r t) \<and>
     simulate_rt s False \<noteq> Inr (Powers R T) \<and>
     (simulate_rt s True = Inl err \<longleftrightarrow> simulate_rt s False = Inl err)" for s
    by (auto simp add: simulate_rt_def Let_def
        split: option.splits sum.splits prod.splits if_splits)
  have returns: "\<exists>R' T'. simulate_rt ?self True = Inr (Powers R' T')"
    if h: "1 \<le> n \<and> SetEnvironment e mu \<in> set cs \<and> e \<noteq> 0 \<and> SetFrequency w \<in> set cs"
  proof -
    from h have n: "1 \<le> n" and env: "SetEnvironment e mu \<in> set cs" and e: "e \<noteq> 0"
      and freq: "SetFrequency w \<in> set cs"
      by simp_all
    from run_ready [OF assms env e freq]
    have "envEpsr ?self \<noteq> None" "omega ?self \<noteq> None" and eb: "env_built ?self"
      by simp_all
    moreover from eb have "transferMatrices ?self ''last2env'' \<noteq> None"
      by (simp add: env_built_def)
    ultimately obtain L T12 T21 E P1 P2 where
      sim: "\<And>RT. simulate_rt ?self RT =
           (if (?l - 1 + int (nat (n - 1))) mod 2 \<noteq> 0 then Inl AssertionError
            else let Q = spec_cascade L T12 T21 E P1 P2 (?l - 1) (nat (n - 1));
                     r = - m10 Q / m11 Q;
                     t = m00 Q - (m01 Q * m10 Q) / m11 Q
                 in if RT then Inr (Powers ((cmod r) ^ 2) (1 - (cmod r) ^ 2))
                    else Inr (Amplitudes r t))"
      using shape by blast
    from sim [of True] parity_flag [OF n] show ?thesis
      by (simp add: Let_def)
  qed
  from tied general [of ?self] returns show ?thesis by blast
qed

text \<open>
  The power pair of the matched single layer, and of the stack of thirty layers of the
  source's own example, whose flag starts at 1 and whose loop takes 29 steps.
\<close>

theorem simulate_rt_power_witness:
  "simulate_rt (calculatePropagationMatrices 1 (run [SetEnvironment 1 1] (projr (init 1 1 1 1 1 1 1)))) True =
     Inr (Powers 0 1) \<and>
   (\<exists>L T12 T21 E P1 P2.
      simulate_rt (run [SetEnvironment 1 1, SetFrequency 1]
        (projr (init 30 (15 / 100) (5 / 100) 2 4 1 1))) True =
        Inr (Powers ((cmod (- m10 (spec_cascade L T12 T21 E P1 P2 1 29) /
                              m11 (spec_cascade L T12 T21 E P1 P2 1 29)))\<^sup>2)
                    (1 - (cmod (- m10 (spec_cascade L T12 T21 E P1 P2 1 29) /
                                  m11 (spec_cascade L T12 T21 E P1 P2 1 29)))\<^sup>2)))"
proof -
  let ?cs = "[SetEnvironment 1 1, SetFrequency 1]"
  have i: "init 1 1 1 1 1 1 1 = Inr (projr (init 1 1 1 1 1 1 1))"
    by (rule init_projr) simp_all
  have "simulate_rt (run [SetEnvironment 1 1, SetFrequency 1] (projr (init 1 1 1 1 1 1 1))) False =
      Inr (Amplitudes 0 (exp (\<i> * complex_of_real (1 * sqrt (Eps0 * Mu0)) * complex_of_real 1)))"
    using matched_simulate [OF i, of "[SetEnvironment 1 1]" 1 False] by (simp add: run_def)
  with simulate_rt_power [OF i, of ?cs _ _ 0 "exp (\<i> * complex_of_real (1 * sqrt (Eps0 * Mu0)) * complex_of_real 1)"]
  have "simulate_rt (run ?cs (projr (init 1 1 1 1 1 1 1))) True = Inr (Powers 0 1)"
    by simp
  then have first: "simulate_rt (calculatePropagationMatrices 1 (run [SetEnvironment 1 1] (projr (init 1 1 1 1 1 1 1)))) True =
     Inr (Powers 0 1)"
    by (simp add: run_def)
  let ?s = "run ?cs (projr (init 30 (15 / 100) (5 / 100) 2 4 1 1))"
  have j: "init 30 (15 / 100) (5 / 100) 2 4 1 1 = Inr (projr (init 30 (15 / 100) (5 / 100) 2 4 1 1))"
    by (rule init_projr) simp_all
  have h: "(1::int) \<le> 30 \<and> SetEnvironment 1 1 \<in> set ?cs \<and> (1::real) \<noteq> 0 \<and> SetFrequency 1 \<in> set ?cs"
    by simp
  from simulate_rt_power [OF j, of ?cs 0 0 0 0 1 1 1 ValueError] h
  obtain R T where ret: "simulate_rt ?s True = Inr (Powers R T)" by blast
  from simulate_rt_power [OF j, of ?cs R T, THEN conjunct1, THEN mp, OF ret]
  obtain L T12 T21 E P1 P2 l Q where
    l: "last_layer ?s = Some l"
    and Q: "Q = spec_cascade L T12 T21 E P1 P2 (l - 1) (nat (30 - 1))"
    and R: "R = (cmod (- m10 Q / m11 Q))\<^sup>2" and T: "T = 1 - R"
    by blast
  have "last_layer ?s = Some 2"
    using run_env_built [of 1 1 ?cs "projr (init 30 (15 / 100) (5 / 100) 2 4 1 1)"] init_Inr [OF j]
    by (simp add: env_built_def run_frame)
  with l have "l = 2" by simp
  with Q have "Q = spec_cascade L T12 T21 E P1 P2 1 29" by simp
  with ret R T have "simulate_rt ?s True =
        Inr (Powers ((cmod (- m10 (spec_cascade L T12 T21 E P1 P2 1 29) /
                              m11 (spec_cascade L T12 T21 E P1 P2 1 29)))\<^sup>2)
                    (1 - (cmod (- m10 (spec_cascade L T12 T21 E P1 P2 1 29) /
                                  m11 (spec_cascade L T12 T21 E P1 P2 1 29)))\<^sup>2))"
    by simp
  then have second: "\<exists>L T12 T21 E P1 P2.
      simulate_rt ?s True =
        Inr (Powers ((cmod (- m10 (spec_cascade L T12 T21 E P1 P2 1 29) /
                              m11 (spec_cascade L T12 T21 E P1 P2 1 29)))\<^sup>2)
                    (1 - (cmod (- m10 (spec_cascade L T12 T21 E P1 P2 1 29) /
                                  m11 (spec_cascade L T12 T21 E P1 P2 1 29)))\<^sup>2))"
    by blast
  from first second show ?thesis by (intro conjI)
qed

text \<open>
  C3. On an object created by \<^verbatim>\<open>__init__\<close> and taken through any list of setter calls,
  \<^verbatim>\<open>simulate_rt\<close> raises \<^verbatim>\<open>ValueError\<close> if and only if the list lacks a call of
  \<^verbatim>\<open>calculateTransferMatrices\<close> or lacks a call of \<^verbatim>\<open>calculatePropagationMatrices\<close>.
  (A call of \<^verbatim>\<open>calculateTransferMatrices\<close> counts from its first two assignments on,
  also when it raises afterwards.) The function returns no object: it assigns no
  attribute, so the state is the same after the call.
\<close>

theorem simulate_rt_uninitialized:
  assumes "init n dd1 dd2 e1 e2 mu1 mu2 = Inr self0"
  shows "simulate_rt (run cs self0) RT = Inl ValueError \<longleftrightarrow>
     (\<forall>e mu. SetEnvironment e mu \<notin> set cs) \<or> (\<forall>w. SetFrequency w \<notin> set cs)"
  using init_Inr [OF assms] run_envEpsr [of cs self0] run_omega [of cs self0]
  by (simp add: simulate_rt_ValueError)

text \<open>
  With the frequency alone the call raises; with both set it does not.
\<close>

theorem simulate_rt_uninitialized_witness:
  "simulate_rt (run [SetFrequency 1] (projr (init 3 1 1 2 4 1 1))) True = Inl ValueError \<and>
   simulate_rt (run [SetEnvironment 1 1, SetFrequency 1] (projr (init 3 1 1 2 4 1 1))) True \<noteq>
     Inl ValueError"
proof -
  have i: "init 3 1 1 2 4 1 1 = Inr (projr (init 3 1 1 2 4 1 1))"
    by (rule init_projr) simp_all
  show ?thesis
    using simulate_rt_uninitialized [OF i, of "[SetFrequency 1]" True]
      simulate_rt_uninitialized [OF i, of "[SetEnvironment 1 1, SetFrequency 1]" True]
    by simp
qed

text \<open>
  C4. For every \<open>1 \<le> N\<close>, even or odd, \<^verbatim>\<open>simulate_rt\<close> never raises
  \<^verbatim>\<open>AssertionError\<close>, after any list of setter calls; and once the environment has been
  set by a call that returned and the frequency has been set, the loop of \<open>N - 1\<close> steps
  started at the flag \<open>last - 1\<close> ends with the flag 0.
\<close>

theorem simulate_rt_flag_check:
  assumes "init n dd1 dd2 e1 e2 mu1 mu2 = Inr self0" and "1 \<le> n"
  shows "simulate_rt (run cs self0) RT \<noteq> Inl AssertionError \<and>
     (\<forall>e mu w. SetEnvironment e mu \<in> set cs \<and> e \<noteq> 0 \<and> SetFrequency w \<in> set cs \<longrightarrow>
        (\<exists>L l Q. transferMatrices (run cs self0) ''last2env'' = Some L \<and>
           last_layer (run cs self0) = Some l \<and>
           for_range (nat (n - 1)) (run cs self0) (L, l - 1) = Inr (Q, 0)))"
proof
  let ?self = "run cs self0"
  let ?l = "if n mod 2 = 0 then 2 else 1 :: int"
  have n: "N ?self = n" using init_Inr [OF assms(1)] by (simp add: run_frame)
  have cons: "consistent ?self"
    by (rule run_consistent [OF init_consistent [OF assms(1)]])
  have loop: "\<exists>L Q. transferMatrices ?self ''last2env'' = Some L \<and>
           last_layer ?self = Some ?l \<and>
           for_range (nat (n - 1)) ?self (L, ?l - 1) = Inr (Q, 0)"
    if eb: "env_built ?self" and fb: "freq_built ?self"
  proof -
    from eb n obtain L T12 T21 where
      tabs: "transferMatrices ?self ''last2env'' = Some L"
        "transferMatrices ?self ''one2two'' = Some T12"
        "transferMatrices ?self ''two2one'' = Some T21"
      and l: "last_layer ?self = Some ?l"
      by (auto simp add: env_built_def)
    from fb obtain P1 P2 where
      props: "propagationMatrices ?self ''one'' = Some P1"
        "propagationMatrices ?self ''two'' = Some P2"
      by (auto simp add: freq_built_def)
    have f: "?l - 1 = 0 \<or> ?l - 1 = 1" by simp
    have "for_range (nat (n - 1)) ?self (L, ?l - 1) =
        Inr (foldl (spec_step T12 T21 P1 P2) L (spec_flags (?l - 1) (nat (n - 1))),
             (?l - 1 + int (nat (n - 1))) mod 2)"
      by (rule for_range_spec [OF props tabs(2,3) f])
    with parity_flag [OF assms(2)] tabs(1) l show ?thesis by simp
  qed
  show "simulate_rt ?self RT \<noteq> Inl AssertionError"
  proof (cases "envEpsr ?self = None \<or> omega ?self = None")
    case True
    then show ?thesis by (auto simp add: simulate_rt_def)
  next
    case False
    with cons have fb: "freq_built ?self" by (auto simp add: consistent_def)
    show ?thesis
    proof (cases "transferMatrices ?self ''last2env''")
      case None
      with False show ?thesis by (auto simp add: simulate_rt_def getitem_def)
    next
      case (Some L)
      with cons have eb: "env_built ?self" by (simp add: consistent_def)
      from loop [OF eb fb] Some obtain Q where
        "last_layer ?self = Some ?l"
        "for_range (nat (n - 1)) ?self (L, ?l - 1) = Inr (Q, 0)"
        by auto
      with False Some n show ?thesis
        by (auto simp add: simulate_rt_def getitem_def Let_def split: sum.splits option.splits)
    qed
  qed
  show "\<forall>e mu w. SetEnvironment e mu \<in> set cs \<and> e \<noteq> 0 \<and> SetFrequency w \<in> set cs \<longrightarrow>
        (\<exists>L l Q. transferMatrices ?self ''last2env'' = Some L \<and>
           last_layer ?self = Some l \<and>
           for_range (nat (n - 1)) ?self (L, l - 1) = Inr (Q, 0))"
  proof (intro allI impI)
    fix e mu w
    assume h: "SetEnvironment e mu \<in> set cs \<and> e \<noteq> 0 \<and> SetFrequency w \<in> set cs"
    then have "env_built ?self" "freq_built ?self"
      using run_ready [OF assms(1), of e mu cs w] by simp_all
    from loop [OF this] show "\<exists>L l Q. transferMatrices ?self ''last2env'' = Some L \<and>
           last_layer ?self = Some l \<and>
           for_range (nat (n - 1)) ?self (L, l - 1) = Inr (Q, 0)"
      by blast
  qed
qed

text \<open>
  A stack of four layers: the flag starts at 1 and is 0 after three steps.
\<close>

theorem simulate_rt_flag_check_witness:
  "(1::int) \<le> 4 \<and>
   simulate_rt (run [SetEnvironment 1 1, SetFrequency 1] (projr (init 4 1 1 2 4 1 1))) True \<noteq>
     Inl AssertionError \<and>
   (\<exists>L l Q. transferMatrices (run [SetEnvironment 1 1, SetFrequency 1] (projr (init 4 1 1 2 4 1 1)))
        ''last2env'' = Some L \<and>
      last_layer (run [SetEnvironment 1 1, SetFrequency 1] (projr (init 4 1 1 2 4 1 1))) = Some l \<and>
      for_range (nat (4 - 1)) (run [SetEnvironment 1 1, SetFrequency 1] (projr (init 4 1 1 2 4 1 1)))
        (L, l - 1) = Inr (Q, 0))"
proof -
  have i: "init 4 1 1 2 4 1 1 = Inr (projr (init 4 1 1 2 4 1 1))"
    by (rule init_projr) simp_all
  have n: "(1::int) \<le> 4" by simp
  have h: "SetEnvironment 1 1 \<in> set [SetEnvironment 1 1, SetFrequency 1] \<and> (1::real) \<noteq> 0 \<and>
      SetFrequency 1 \<in> set [SetEnvironment 1 1, SetFrequency 1]"
    by simp
  from simulate_rt_flag_check [OF i n, of "[SetEnvironment 1 1, SetFrequency 1]" True] h n
  show ?thesis by blast
qed

text \<open>
  C5. After a call of \<^verbatim>\<open>calculateTransferMatrices\<close> that returns, each of the four stored
  arrays has the form \<open>0.5 [[1 + \<delta>, 1 - \<delta>], [1 - \<delta>, 1 + \<delta>]]\<close>, with \<open>\<delta> = Z1 / envZ\<close> for
  "env2one", \<open>Z2 / Z1\<close> for "one2two", \<open>Z1 / Z2\<close> for "two2one", and for "last2env"
  \<open>envZ / Z2\<close> when \<open>N\<close> is even and \<open>envZ / Z1\<close> when it is odd, where
  \<open>envZ = sqrt (Mu0 envMur / (Eps0 envEpsr))\<close>.
\<close>

theorem transfer_matrices_form:
  assumes "fst (calculateTransferMatrices e mu self) = Inr ()"
  shows "transferMatrices (snd (calculateTransferMatrices e mu self)) ''env2one'' =
           Some (spec_interface (Z1 self / sqrt ((Mu0 * mu) / (Eps0 * e)))) \<and>
         transferMatrices (snd (calculateTransferMatrices e mu self)) ''one2two'' =
           Some (spec_interface (Z2 self / Z1 self)) \<and>
         transferMatrices (snd (calculateTransferMatrices e mu self)) ''two2one'' =
           Some (spec_interface (Z1 self / Z2 self)) \<and>
         transferMatrices (snd (calculateTransferMatrices e mu self)) ''last2env'' =
           Some (spec_interface
             (if N self mod 2 = 0 then sqrt ((Mu0 * mu) / (Eps0 * e)) / Z2 self
              else sqrt ((Mu0 * mu) / (Eps0 * e)) / Z1 self))"
proof -
  from assms have "e \<noteq> 0" by (simp add: ctm_fst split: if_splits)
  then show ?thesis by (simp add: ctm_table half_array_spec)
qed

text \<open>
  A stack of two layers put in vacuum.
\<close>

theorem transfer_matrices_form_witness:
  "fst (calculateTransferMatrices 1 1 (projr (init 2 1 1 2 4 1 1))) = Inr () \<and>
   transferMatrices (snd (calculateTransferMatrices 1 1 (projr (init 2 1 1 2 4 1 1)))) ''one2two'' =
     Some (spec_interface (Z2 (projr (init 2 1 1 2 4 1 1)) / Z1 (projr (init 2 1 1 2 4 1 1))))"
proof -
  have ok: "fst (calculateTransferMatrices 1 1 (projr (init 2 1 1 2 4 1 1))) = Inr ()"
    by (simp add: ctm_fst)
  from transfer_matrices_form [OF ok] ok show ?thesis by simp
qed

text \<open>
  C6. After \<^verbatim>\<open>calculatePropagationMatrices\<close> with angular frequency \<open>w\<close>, each of the
  two stored propagation arrays is diagonal, with the entries \<open>exp (i k d)\<close> and
  \<open>exp (- i k d)\<close> for the wavenumber \<open>k = w sqrt (Eps0 Mu0 epsr mur)\<close> and the thickness
  \<open>d\<close> of its layer type; as \<open>k\<close> and \<open>d\<close> are real, the second entry is the complex
  conjugate of the first.
\<close>

theorem propagation_matrices_form:
  "propagationMatrices (calculatePropagationMatrices w self) ''one'' =
     Some (spec_propagation (w * sqrt (Eps0 * Mu0 * epsr1 self * mur1 self)) (d1 self)) \<and>
   propagationMatrices (calculatePropagationMatrices w self) ''two'' =
     Some (spec_propagation (w * sqrt (Eps0 * Mu0 * epsr2 self * mur2 self)) (d2 self)) \<and>
   m00 (spec_propagation k d) = exp (\<i> * complex_of_real k * complex_of_real d) \<and>
   m11 (spec_propagation k d) = exp (- \<i> * complex_of_real k * complex_of_real d) \<and>
   m01 (spec_propagation k d) = 0 \<and> m10 (spec_propagation k d) = 0 \<and>
   m11 (spec_propagation k d) = cnj (m00 (spec_propagation k d))"
  by (intro conjI cpm_entries spec_propagation_entries)

text \<open>
  C7. A single layer with \<open>epsr = mur = 1\<close> for both materials, in an environment that has
  only ever been set to \<open>envEpsr = envMur = 1\<close>: at every angular frequency \<open>w\<close> set last,
  \<^verbatim>\<open>simulate_rt\<close> returns \<open>R = 0\<close> and \<open>T = 1\<close>, and the amplitudes \<open>r = 0\<close> and
  \<open>t = exp (i k d1)\<close>; the four interface arrays are the identity and the cascade is the
  type-1 propagation array, which is diagonal.
\<close>

theorem matched_single_layer:
  assumes "init 1 dd1 dd2 1 1 1 1 = Inr self0"
    and "SetEnvironment 1 1 \<in> set cs"
    and "\<forall>e mu. SetEnvironment e mu \<in> set cs \<longrightarrow> e = 1 \<and> mu = 1"
    and "self = calculatePropagationMatrices w (run cs self0)"
  shows "simulate_rt self True = Inr (Powers 0 1) \<and>
     simulate_rt self False =
       Inr (Amplitudes 0 (exp (\<i> * complex_of_real (w * sqrt (Eps0 * Mu0)) * complex_of_real dd1))) \<and>
     transferMatrices self ''env2one'' = Some (Mat22 1 0 0 1) \<and>
     transferMatrices self ''one2two'' = Some (Mat22 1 0 0 1) \<and>
     transferMatrices self ''two2one'' = Some (Mat22 1 0 0 1) \<and>
     transferMatrices self ''last2env'' = Some (Mat22 1 0 0 1) \<and>
     (\<exists>P1 P2. propagationMatrices self ''one'' = Some P1 \<and>
        propagationMatrices self ''two'' = Some P2 \<and>
        spec_cascade (Mat22 1 0 0 1) (Mat22 1 0 0 1) (Mat22 1 0 0 1) (Mat22 1 0 0 1) P1 P2
          (1 - 1) (nat (N self - 1)) = P1 \<and>
        m01 P1 = 0 \<and> m10 P1 = 0)"
proof -
  have sim: "simulate_rt self True = Inr (Powers 0 1)"
    "simulate_rt self False =
       Inr (Amplitudes 0 (exp (\<i> * complex_of_real (w * sqrt (Eps0 * Mu0)) * complex_of_real dd1)))"
    using matched_simulate [OF assms(1,2,3), of w True]
      matched_simulate [OF assms(1,2,3), of w False] assms(4)
    by simp_all
  have "all_identity (run cs self0)" by (rule run_all_identity [OF assms(1,2,3)])
  then have tabs: "transferMatrices self ''env2one'' = Some (Mat22 1 0 0 1)"
    "transferMatrices self ''one2two'' = Some (Mat22 1 0 0 1)"
    "transferMatrices self ''two2one'' = Some (Mat22 1 0 0 1)"
    "transferMatrices self ''last2env'' = Some (Mat22 1 0 0 1)"
    using assms(4) by (simp_all add: all_identity_def cpm_frame)
  have n: "N self = 1"
    using init_Inr [OF assms(1)] assms(4) by (simp add: cpm_frame run_frame)
  have props: "\<exists>P1 P2. propagationMatrices self ''one'' = Some P1 \<and>
        propagationMatrices self ''two'' = Some P2 \<and>
        spec_cascade (Mat22 1 0 0 1) (Mat22 1 0 0 1) (Mat22 1 0 0 1) (Mat22 1 0 0 1) P1 P2
          (1 - 1) (nat (N self - 1)) = P1 \<and>
        m01 P1 = 0 \<and> m10 P1 = 0"
    unfolding assms(4)
    apply (intro exI conjI)
        apply (rule cpm_entries(1))
       apply (rule cpm_entries(2))
      apply (simp add: n [unfolded assms(4)] spec_cascade_def spec_flags_0 matmul_identity)
     apply (rule spec_propagation_entries(3))
    apply (rule spec_propagation_entries(4))
    done
  from sim tabs props show ?thesis by simp
qed

text \<open>
  Thicknesses 3 and 4, angular frequency 2.
\<close>

theorem matched_single_layer_witness:
  "SetEnvironment 1 1 \<in> set [SetEnvironment 1 1] \<and>
   simulate_rt (calculatePropagationMatrices 2 (run [SetEnvironment 1 1] (projr (init 1 3 4 1 1 1 1)))) True =
     Inr (Powers 0 1)"
proof -
  have i: "init 1 3 4 1 1 1 1 = Inr (projr (init 1 3 4 1 1 1 1))"
    by (rule init_projr) simp_all
  have only: "\<forall>e mu. SetEnvironment e mu \<in> set [SetEnvironment 1 1] \<longrightarrow> e = 1 \<and> mu = 1"
    by simp
  have env: "SetEnvironment 1 1 \<in> set [SetEnvironment 1 1]" by simp
  from matched_single_layer [OF i env only refl, of 2] env show ?thesis by simp
qed

text \<open>
  C8, as the claim states it: after \<^verbatim>\<open>__init__\<close> with \<open>N = 2\<close> the attribute \<^verbatim>\<open>last\<close>
  would be 2. It is \<^verbatim>\<open>None\<close>.
\<close>

theorem init_last_counterexample:
  "\<not> isl (init 2 1 1 1 1 1 1) \<and> last_layer (projr (init 2 1 1 1 1 1 1)) \<noteq> Some 2 \<and>
   last_layer (projr (init 2 1 1 1 1 1 1)) = None"
  by (simp add: init_def Eps0_neq_0)

text \<open>
  C8, amended. \<^verbatim>\<open>__init__\<close> leaves \<^verbatim>\<open>last\<close> unset; it is
  \<^verbatim>\<open>calculateTransferMatrices\<close> that determines and stores the parity: after a call of it
  that returns, made after any list of setter calls, \<^verbatim>\<open>last\<close> is 2 if \<open>N\<close> is even and 1
  if \<open>N\<close> is odd.
\<close>

theorem last_layer_set_by_setEnvironment:
  assumes "init n dd1 dd2 e1 e2 mu1 mu2 = Inr self0"
    and "fst (calculateTransferMatrices e mu (run cs self0)) = Inr ()"
  shows "last_layer self0 = None \<and>
     last_layer (snd (calculateTransferMatrices e mu (run cs self0))) =
       Some (if n mod 2 = 0 then 2 else 1)"
proof -
  from assms(2) have "e \<noteq> 0" by (simp add: ctm_fst split: if_splits)
  with init_Inr [OF assms(1)] show ?thesis
    by (simp add: ctm_last run_frame)
qed

text \<open>
  A stack of two layers, the frequency set before the environment.
\<close>

theorem last_layer_set_by_setEnvironment_witness:
  "fst (calculateTransferMatrices 1 1 (run [SetFrequency 1] (projr (init 2 1 1 2 4 1 1)))) = Inr () \<and>
   last_layer (projr (init 2 1 1 2 4 1 1)) = None \<and>
   last_layer (snd (calculateTransferMatrices 1 1 (run [SetFrequency 1] (projr (init 2 1 1 2 4 1 1))))) =
     Some 2"
proof -
  have i: "init 2 1 1 2 4 1 1 = Inr (projr (init 2 1 1 2 4 1 1))"
    by (rule init_projr) simp_all
  have ok: "fst (calculateTransferMatrices 1 1 (run [SetFrequency 1] (projr (init 2 1 1 2 4 1 1)))) = Inr ()"
    by (simp add: ctm_fst)
  from last_layer_set_by_setEnvironment [OF i ok] ok show ?thesis by simp
qed

text \<open>
  C9. On an object reached from \<^verbatim>\<open>__init__\<close> by any list of setter calls:
  \<^verbatim>\<open>calculatePropagationMatrices\<close> leaves the interface dictionary and the two environment
  attributes as they were; \<^verbatim>\<open>calculateTransferMatrices\<close> leaves the propagation dictionary
  and \<^verbatim>\<open>omega\<close> as they were; and each setter rebuilds its whole dictionary: the
  dictionary after the call is the one the same call builds on the fresh object, whatever
  calls came before, with exactly the two, respectively four, keys (for
  \<^verbatim>\<open>calculateTransferMatrices\<close>, when the call returns).
\<close>

theorem setters_frame_and_rebuild:
  assumes "init n dd1 dd2 e1 e2 mu1 mu2 = Inr self0" and "self = run cs self0"
  shows "transferMatrices (calculatePropagationMatrices w self) = transferMatrices self \<and>
     envEpsr (calculatePropagationMatrices w self) = envEpsr self \<and>
     envMur (calculatePropagationMatrices w self) = envMur self \<and>
     propagationMatrices (snd (calculateTransferMatrices e mu self)) = propagationMatrices self \<and>
     omega (snd (calculateTransferMatrices e mu self)) = omega self \<and>
     propagationMatrices (calculatePropagationMatrices w self) =
       propagationMatrices (calculatePropagationMatrices w self0) \<and>
     dom (propagationMatrices (calculatePropagationMatrices w self)) = {''one'', ''two''} \<and>
     (fst (calculateTransferMatrices e mu self) = Inr () \<longrightarrow>
        transferMatrices (snd (calculateTransferMatrices e mu self)) =
          transferMatrices (snd (calculateTransferMatrices e mu self0)) \<and>
        dom (transferMatrices (snd (calculateTransferMatrices e mu self))) =
          {''env2one'', ''one2two'', ''two2one'', ''last2env''})"
proof -
  have same: "epsr1 self = epsr1 self0" "epsr2 self = epsr2 self0" "mur1 self = mur1 self0"
    "mur2 self = mur2 self0" "d1 self = d1 self0" "d2 self = d2 self0"
    "Z1 self = Z1 self0" "Z2 self = Z2 self0" "N self = N self0"
    by (simp_all add: assms(2) run_frame)
  have pd: "dom (propagationMatrices self) \<subseteq> {''one'', ''two''}"
    "dom (propagationMatrices self0) \<subseteq> {''one'', ''two''}"
    using run_dom(2) [OF assms(1), of cs] run_dom(2) [OF assms(1), of "[]"]
    by (simp_all add: assms(2) run_Nil)
  have td: "dom (transferMatrices self) \<subseteq> {''env2one'', ''one2two'', ''two2one'', ''last2env''}"
    "dom (transferMatrices self0) \<subseteq> {''env2one'', ''one2two'', ''two2one'', ''last2env''}"
    using run_dom(1) [OF assms(1), of cs] run_dom(1) [OF assms(1), of "[]"]
    by (simp_all add: assms(2) run_Nil)
  have prop_eq: "propagationMatrices (calculatePropagationMatrices w self) =
       propagationMatrices (calculatePropagationMatrices w self0)"
    unfolding cpm_table same by (rule overwrite2 [OF pd])
  have prop_dom: "dom (propagationMatrices (calculatePropagationMatrices w self)) = {''one'', ''two''}"
    using pd(1) by (auto simp add: cpm_table)
  have tm: "transferMatrices (snd (calculateTransferMatrices e mu self)) =
          transferMatrices (snd (calculateTransferMatrices e mu self0)) \<and>
        dom (transferMatrices (snd (calculateTransferMatrices e mu self))) =
          {''env2one'', ''one2two'', ''two2one'', ''last2env''}"
    if ok: "fst (calculateTransferMatrices e mu self) = Inr ()"
  proof -
    from ok have e: "e \<noteq> 0" by (simp add: ctm_fst split: if_splits)
    have "transferMatrices (snd (calculateTransferMatrices e mu self)) =
          transferMatrices (snd (calculateTransferMatrices e mu self0))"
      unfolding ctm_table [OF e] same by (rule overwrite4 [OF td])
    moreover have "dom (transferMatrices (snd (calculateTransferMatrices e mu self))) =
          {''env2one'', ''one2two'', ''two2one'', ''last2env''}"
      using td(1) by (auto simp add: ctm_table [OF e])
    ultimately show ?thesis by simp
  qed
  have frame: "transferMatrices (calculatePropagationMatrices w self) = transferMatrices self"
    "envEpsr (calculatePropagationMatrices w self) = envEpsr self"
    "envMur (calculatePropagationMatrices w self) = envMur self"
    "propagationMatrices (snd (calculateTransferMatrices e mu self)) = propagationMatrices self"
    "omega (snd (calculateTransferMatrices e mu self)) = omega self"
    by (simp_all add: cpm_frame ctm_frame)
  from frame prop_eq prop_dom tm show ?thesis
    by blast
qed

text \<open>
  Resetting the environment and the frequency of a stack of two layers.
\<close>

theorem setters_frame_and_rebuild_witness:
  "fst (calculateTransferMatrices 3 1
        (run [SetEnvironment 1 1, SetFrequency 1] (projr (init 2 1 1 2 4 1 1)))) = Inr () \<and>
   transferMatrices (snd (calculateTransferMatrices 3 1
        (run [SetEnvironment 1 1, SetFrequency 1] (projr (init 2 1 1 2 4 1 1))))) =
     transferMatrices (snd (calculateTransferMatrices 3 1 (projr (init 2 1 1 2 4 1 1)))) \<and>
   propagationMatrices (calculatePropagationMatrices 5
        (run [SetEnvironment 1 1, SetFrequency 1] (projr (init 2 1 1 2 4 1 1)))) =
     propagationMatrices (calculatePropagationMatrices 5 (projr (init 2 1 1 2 4 1 1)))"
proof -
  have i: "init 2 1 1 2 4 1 1 = Inr (projr (init 2 1 1 2 4 1 1))"
    by (rule init_projr) simp_all
  have ok: "fst (calculateTransferMatrices 3 1
        (run [SetEnvironment 1 1, SetFrequency 1] (projr (init 2 1 1 2 4 1 1)))) = Inr ()"
    by (simp add: ctm_fst)
  from setters_frame_and_rebuild [OF i refl, of 5 "[SetEnvironment 1 1, SetFrequency 1]" 3 1] ok
  show ?thesis by blast
qed

text \<open>
  C10. On an object created with \<open>N = 0\<close>, once the environment has been set by a call
  that returned and the frequency has been set, \<^verbatim>\<open>simulate_rt\<close> raises
  \<^verbatim>\<open>AssertionError\<close>: \<^verbatim>\<open>last\<close> is 2, the flag starts at 1, the loop body never runs,
  and the flag is still 1 at the assertion.
\<close>

theorem simulate_rt_zero_layers:
  assumes "init 0 dd1 dd2 e1 e2 mu1 mu2 = Inr self0"
    and "SetEnvironment e mu \<in> set cs" and "e \<noteq> 0"
    and "SetFrequency w \<in> set cs"
  shows "simulate_rt (run cs self0) RT = Inl AssertionError \<and>
     last_layer (run cs self0) = Some 2 \<and>
     (\<exists>L. transferMatrices (run cs self0) ''last2env'' = Some L \<and>
        for_range (nat (N (run cs self0) - 1)) (run cs self0) (L, 2 - 1) = Inr (L, 1))"
proof -
  let ?self = "run cs self0"
  from run_ready [OF assms]
  have env: "envEpsr ?self \<noteq> None" and om: "omega ?self \<noteq> None"
    and eb: "env_built ?self" and fb: "freq_built ?self" and n: "N ?self = 0"
    by simp_all
  from eb n obtain L T12 T21 E where
    tabs: "transferMatrices ?self ''last2env'' = Some L"
      "transferMatrices ?self ''one2two'' = Some T12"
      "transferMatrices ?self ''two2one'' = Some T21"
      "transferMatrices ?self ''env2one'' = Some E"
    and l: "last_layer ?self = Some 2"
    by (auto simp add: env_built_def)
  from fb obtain P1 P2 where
    props: "propagationMatrices ?self ''one'' = Some P1"
      "propagationMatrices ?self ''two'' = Some P2"
    by (auto simp add: freq_built_def)
  have "simulate_rt ?self RT = Inl AssertionError"
    using simulate_rt_tables [OF env om tabs props l, of RT] n by simp
  with tabs(1) l n show ?thesis by simp
qed

text \<open>
  No layers, in vacuum.
\<close>

theorem simulate_rt_zero_layers_witness:
  "SetEnvironment 1 1 \<in> set [SetEnvironment 1 1, SetFrequency 1] \<and>
   SetFrequency 1 \<in> set [SetEnvironment 1 1, SetFrequency 1] \<and>
   simulate_rt (run [SetEnvironment 1 1, SetFrequency 1] (projr (init 0 1 1 2 4 1 1))) True =
     Inl AssertionError"
proof -
  have i: "init 0 1 1 2 4 1 1 = Inr (projr (init 0 1 1 2 4 1 1))"
    by (rule init_projr) simp_all
  show ?thesis
    using simulate_rt_zero_layers [OF i, of 1 1 "[SetEnvironment 1 1, SetFrequency 1]" 1 True]
    by simp
qed

end
